theory Spec2Isabelle
  imports Complex_Main
begin

section \<open>Strings\<close>

text \<open>
  A Python \<open>str\<close> is a sequence of Unicode code points. It is modelled as a list of
  natural numbers, one per code point, so that offsets and lengths count what Python
  counts. \<^term>\<open>str\<close> turns a literal into such a list.
\<close>

type_synonym codepoint = nat
type_synonym pystr = "codepoint list"

definition str :: "string \<Rightarrow> pystr" where
  "str s = map of_char s"

definition is_upper_ascii :: "codepoint \<Rightarrow> bool" where
  "is_upper_ascii c = (65 \<le> c \<and> c \<le> 90)"

definition is_lower_ascii :: "codepoint \<Rightarrow> bool" where
  "is_lower_ascii c = (97 \<le> c \<and> c \<le> 122)"

definition is_digit_ascii :: "codepoint \<Rightarrow> bool" where
  "is_digit_ascii c = (48 \<le> c \<and> c \<le> 57)"

definition is_alnum_ascii :: "codepoint \<Rightarrow> bool" where
  "is_alnum_ascii c = (is_upper_ascii c \<or> is_lower_ascii c \<or> is_digit_ascii c)"

definition is_space :: "codepoint \<Rightarrow> bool" where
  "is_space c = ((9 \<le> c \<and> c \<le> 13) \<or> (28 \<le> c \<and> c \<le> 32) \<or> c = 133 \<or> c = 160
     \<or> c = 5760 \<or> (8192 \<le> c \<and> c \<le> 8202) \<or> c = 8232 \<or> c = 8233 \<or> c = 8239
     \<or> c = 8287 \<or> c = 12288)"

text \<open>
  \<open>str.strip()\<close> without arguments removes leading and trailing whitespace; the regular
  expression class \<open>\s\<close> and \<open>str.strip\<close> agree on what whitespace is.
\<close>

definition py_strip :: "pystr \<Rightarrow> pystr" where
  "py_strip s = rev (dropWhile is_space (rev (dropWhile is_space s)))"


text \<open>
  \<open>text[a:b]\<close> for offsets that are not negative: Python clips both ends to the length.
\<close>

definition py_slice :: "pystr \<Rightarrow> nat \<Rightarrow> nat \<Rightarrow> pystr" where
  "py_slice t a b = drop a (take b t)"

text \<open>The operator \<open>k in s\<close> on strings: \<open>k\<close> occurs in \<open>s\<close> as a contiguous part.\<close>

fun py_in :: "pystr \<Rightarrow> pystr \<Rightarrow> bool" where
  "py_in k [] = (k = [])"
| "py_in k (c # cs) = (take (length k) (c # cs) = k \<or> py_in k cs)"

text \<open>
  \<open>str.split()\<close> without arguments: the maximal runs of characters that are not
  whitespace.
\<close>

function py_split :: "pystr \<Rightarrow> pystr list" where
  "py_split [] = []"
| "py_split (c # cs) =
     (if is_space c then py_split (dropWhile is_space cs)
      else (c # takeWhile (\<lambda>x. \<not> is_space x) cs) # py_split (dropWhile (\<lambda>x. \<not> is_space x) cs))"
  by pat_completeness auto
termination
  by (relation "measure length") (auto simp: length_dropWhile_le less_Suc_eq_le)

text \<open>\<^verbatim>\<open>re.sub(r'\s+', ' ', text)\<close>: every run of whitespace becomes one space.\<close>

function collapse_ws :: "pystr \<Rightarrow> pystr" where
  "collapse_ws [] = []"
| "collapse_ws (c # cs) =
     (if is_space c then 32 # collapse_ws (dropWhile is_space cs) else c # collapse_ws cs)"
  by pat_completeness auto
termination
  by (relation "measure length") (auto simp: length_dropWhile_le less_Suc_eq_le)

subsection \<open>Character classes beyond ASCII\<close>

text \<open>
  What Python answers for a code point above 127 comes from the Unicode database of the
  interpreter, which is no part of the program. It is a parameter of the model: a record of
  the tables the program consults. Every function below decides code points up to 127
  itself, and four more that are named below, and asks the tables for the others.
  \<^item> \<open>uc_alpha\<close>: \<open>str.isalpha\<close>; \<open>uc_digit\<close>: \<open>str.isdigit\<close>;
  \<^item> \<open>uc_decimal\<close>: the value of a decimal digit (\<open>\d\<close> in a pattern);
  \<^item> \<open>uc_word\<close>: a word character (\<open>\w\<close>, which decides \<open>\b\<close>);
  \<^item> \<open>uc_lower\<close>, \<open>uc_upper\<close>, \<open>uc_title\<close>: the case of a character;
  \<^item> \<open>uc_to_lower\<close>, \<open>uc_to_upper\<close>: the full case mappings (one character may map to
    several). \<open>str.lower\<close> maps character by character but for the Greek capital sigma,
    whose image depends on its position in a word; the model maps it like any other.
\<close>

record unicode_tables =
  uc_alpha :: "codepoint \<Rightarrow> bool"
  uc_digit :: "codepoint \<Rightarrow> bool"
  uc_decimal :: "codepoint \<Rightarrow> nat option"
  uc_word :: "codepoint \<Rightarrow> bool"
  uc_lower :: "codepoint \<Rightarrow> bool"
  uc_upper :: "codepoint \<Rightarrow> bool"
  uc_title :: "codepoint \<Rightarrow> bool"
  uc_to_lower :: "codepoint \<Rightarrow> pystr"
  uc_to_upper :: "codepoint \<Rightarrow> pystr"

text \<open>
  Four letters beyond ASCII are decided by the model itself, as Python decides them: a
  pattern applied without regard to case lets them stand for an ASCII letter, so they
  occur in candidates.
  \<^item> 304, U+0130, capital I with dot: uppercase; its lowercase is \<open>i\<close> followed by U+0307;
  \<^item> 305, U+0131, dotless i: lowercase; its uppercase is \<open>I\<close>;
  \<^item> 383, U+017F, long s: lowercase; its uppercase is \<open>S\<close>;
  \<^item> 8490, U+212A, the Kelvin sign: uppercase; its lowercase is \<open>k\<close>.

  All four are letters and word characters, none is a digit or titlecase.
\<close>

definition ascii_partner :: "codepoint \<Rightarrow> bool" where
  "ascii_partner c = (c = 304 \<or> c = 305 \<or> c = 383 \<or> c = 8490)"

text \<open>
  Tables that answer nothing: they are never consulted while every character is ASCII or
  one of the four letters above.
\<close>

definition ascii_tables :: unicode_tables where
  "ascii_tables = \<lparr> uc_alpha = (\<lambda>c. False), uc_digit = (\<lambda>c. False), uc_decimal = (\<lambda>c. None),
     uc_word = (\<lambda>c. False), uc_lower = (\<lambda>c. False), uc_upper = (\<lambda>c. False),
     uc_title = (\<lambda>c. False), uc_to_lower = (\<lambda>c. [c]), uc_to_upper = (\<lambda>c. [c]) \<rparr>"

definition isalpha_cp :: "unicode_tables \<Rightarrow> codepoint \<Rightarrow> bool" where
  "isalpha_cp U c =
     (if c < 128 then is_upper_ascii c \<or> is_lower_ascii c
      else if ascii_partner c then True
      else uc_alpha U c)"

definition isdigit_cp :: "unicode_tables \<Rightarrow> codepoint \<Rightarrow> bool" where
  "isdigit_cp U c =
     (if c < 128 then is_digit_ascii c else if ascii_partner c then False else uc_digit U c)"

definition islower_cp :: "unicode_tables \<Rightarrow> codepoint \<Rightarrow> bool" where
  "islower_cp U c =
     (if c < 128 then is_lower_ascii c
      else if ascii_partner c then c = 305 \<or> c = 383
      else uc_lower U c)"

definition isupper_cp :: "unicode_tables \<Rightarrow> codepoint \<Rightarrow> bool" where
  "isupper_cp U c =
     (if c < 128 then is_upper_ascii c
      else if ascii_partner c then c = 304 \<or> c = 8490
      else uc_upper U c)"

definition istitle_cp :: "unicode_tables \<Rightarrow> codepoint \<Rightarrow> bool" where
  "istitle_cp U c = (if c < 128 then False else if ascii_partner c then False else uc_title U c)"

definition lower_cp :: "unicode_tables \<Rightarrow> codepoint \<Rightarrow> pystr" where
  "lower_cp U c =
     (if c < 128 then [if is_upper_ascii c then c + 32 else c]
      else if ascii_partner c then (if c = 8490 then [107] else if c = 304 then [105, 775] else [c])
      else uc_to_lower U c)"

definition upper_cp :: "unicode_tables \<Rightarrow> codepoint \<Rightarrow> pystr" where
  "upper_cp U c =
     (if c < 128 then [if is_lower_ascii c then c - 32 else c]
      else if ascii_partner c then (if c = 383 then [83] else if c = 305 then [73] else [c])
      else uc_to_upper U c)"

definition py_lower :: "unicode_tables \<Rightarrow> pystr \<Rightarrow> pystr" where
  "py_lower U s = concat (map (lower_cp U) s)"

definition py_upper :: "unicode_tables \<Rightarrow> pystr \<Rightarrow> pystr" where
  "py_upper U s = concat (map (upper_cp U) s)"

text \<open>
  \<open>str.isalpha\<close> and \<open>str.isdigit\<close> are false on the empty string. \<open>str.isupper\<close> holds
  when no character is lowercase or titlecase and at least one is uppercase.
\<close>

definition py_isalpha :: "unicode_tables \<Rightarrow> pystr \<Rightarrow> bool" where
  "py_isalpha U s = (s \<noteq> [] \<and> list_all (isalpha_cp U) s)"

definition py_isdigit :: "unicode_tables \<Rightarrow> pystr \<Rightarrow> bool" where
  "py_isdigit U s = (s \<noteq> [] \<and> list_all (isdigit_cp U) s)"

definition py_isupper :: "unicode_tables \<Rightarrow> pystr \<Rightarrow> bool" where
  "py_isupper U s =
     (\<not> list_ex (\<lambda>c. islower_cp U c \<or> istitle_cp U c) s \<and> list_ex (isupper_cp U) s)"

text \<open>The classes \<open>\w\<close> and \<open>\d\<close> of a pattern over \<open>str\<close>.\<close>

definition re_word :: "unicode_tables \<Rightarrow> codepoint \<Rightarrow> bool" where
  "re_word U c =
     (if c < 128 then is_alnum_ascii c \<or> c = 95 else if ascii_partner c then True else uc_word U c)"

definition re_digit :: "unicode_tables \<Rightarrow> codepoint \<Rightarrow> bool" where
  "re_digit U c =
     (if c < 128 then is_digit_ascii c
      else if ascii_partner c then False
      else uc_decimal U c \<noteq> None)"

section \<open>Patterns\<close>

text \<open>
  The patterns of the program are searched with \<open>re.finditer\<close>. A pattern is a term of
  \<open>rx\<close>, with one constructor for each construct the program's patterns use:
  \<^item> \<open>Cls p\<close>: one character of a class (\<open>[0-9]\<close>, \<open>\s\<close>, a literal character);
  \<^item> \<open>Rep lo hi p\<close>: a greedy repetition of a class (\<open>[a-z]+\<close> is \<open>Rep 1 None\<close>,
    \<open>[0-9]{3,4}\<close> is \<open>Rep 3 (Some 4)\<close>, \<open>[-\s]?\<close> is \<open>Rep 0 (Some 1)\<close>);
  \<^item> \<open>Cat\<close>, \<open>Alt\<close> (the left branch first) and \<open>Eps\<close>; \<open>(?:r)?\<close> is \<open>Alt r Eps\<close>;
  \<^item> \<open>NotBehind p\<close> and \<open>NotAhead p\<close>: \<open>(?<![0-9])\<close> and \<open>(?![0-9])\<close>;
  \<^item> \<open>WordB\<close>: \<open>\b\<close>;
  \<^item> \<open>Grp n r\<close>: the capturing group number \<open>n\<close>.

  \<open>rx_match\<close> is the backtracking matcher: it tries the pattern at offset \<open>i\<close> and hands
  the offset it reached, with the groups captured so far, to the continuation \<open>k\<close>, which
  matches the rest; when the continuation fails the next alternative or a shorter
  repetition is tried.
\<close>

type_synonym captures = "(nat \<times> nat \<times> nat) list"

datatype rx =
    Cls "codepoint \<Rightarrow> bool"
  | Rep nat "nat option" "codepoint \<Rightarrow> bool"
  | Cat rx rx
  | Alt rx rx
  | Eps
  | NotBehind "codepoint \<Rightarrow> bool"
  | NotAhead "codepoint \<Rightarrow> bool"
  | WordB
  | Grp nat rx

fun first_some :: "'a list \<Rightarrow> ('a \<Rightarrow> 'b option) \<Rightarrow> 'b option" where
  "first_some [] f = None"
| "first_some (x # xs) f = (case f x of Some r \<Rightarrow> Some r | None \<Rightarrow> first_some xs f)"

text \<open>
  The numbers of repetitions a greedy \<open>Rep lo hi\<close> tries when \<open>run\<close> characters of the class
  follow: the largest allowed first, down to \<open>lo\<close>.
\<close>

definition rep_counts :: "nat \<Rightarrow> nat option \<Rightarrow> nat \<Rightarrow> nat list" where
  "rep_counts lo hi run =
     (let m = (case hi of None \<Rightarrow> run | Some h \<Rightarrow> min h run) in rev [lo ..< Suc m])"

definition word_at :: "unicode_tables \<Rightarrow> pystr \<Rightarrow> nat \<Rightarrow> bool" where
  "word_at U t i = (i < length t \<and> re_word U (t ! i))"

fun rx_match :: "unicode_tables \<Rightarrow> rx \<Rightarrow> pystr \<Rightarrow> nat \<Rightarrow> captures
    \<Rightarrow> (nat \<Rightarrow> captures \<Rightarrow> (nat \<times> captures) option) \<Rightarrow> (nat \<times> captures) option" where
  "rx_match U (Cls p) t i g k = (if i < length t \<and> p (t ! i) then k (Suc i) g else None)"
| "rx_match U (Rep lo hi p) t i g k =
     first_some (rep_counts lo hi (length (takeWhile p (drop i t)))) (\<lambda>n. k (i + n) g)"
| "rx_match U (Cat a b) t i g k = rx_match U a t i g (\<lambda>j g'. rx_match U b t j g' k)"
| "rx_match U (Alt a b) t i g k =
     (case rx_match U a t i g k of Some r \<Rightarrow> Some r | None \<Rightarrow> rx_match U b t i g k)"
| "rx_match U Eps t i g k = k i g"
| "rx_match U (NotBehind p) t i g k = (if 0 < i \<and> p (t ! (i - 1)) then None else k i g)"
| "rx_match U (NotAhead p) t i g k = (if i < length t \<and> p (t ! i) then None else k i g)"
| "rx_match U WordB t i g k =
     (if (0 < i \<and> word_at U t (i - 1)) \<noteq> word_at U t i then k i g else None)"
| "rx_match U (Grp n r) t i g k = rx_match U r t i g (\<lambda>j g'. k j ((n, i, j) # g'))"

text \<open>\<open>pattern.match\<close> at one offset: the end of the match and its groups.\<close>

definition match_at :: "unicode_tables \<Rightarrow> rx \<Rightarrow> pystr \<Rightarrow> nat \<Rightarrow> (nat \<times> captures) option" where
  "match_at U r t i = rx_match U r t i [] (\<lambda>j g. Some (j, g))"

text \<open>
  \<open>re.finditer\<close>: the matches from left to right, each search starting where the last
  match ended. A match is its start, its end and its groups. No pattern of the program
  matches the empty string; after an empty match the scan moves on by one character.
\<close>

record re_match =
  m_start :: nat
  m_end :: nat
  m_groups :: captures

function finditer_from :: "unicode_tables \<Rightarrow> rx \<Rightarrow> pystr \<Rightarrow> nat \<Rightarrow> re_match list" where
  "finditer_from U r t i =
     (if length t < i then []
      else case match_at U r t i of
             None \<Rightarrow> finditer_from U r t (Suc i)
           | Some (j, g) \<Rightarrow>
               \<lparr> m_start = i, m_end = j, m_groups = g \<rparr> # finditer_from U r t (max j (Suc i)))"
  by pat_completeness auto
termination
  by (relation "measure (\<lambda>(U, r, t, i). Suc (length t) - i)") auto

declare finditer_from.simps [simp del]

definition finditer :: "unicode_tables \<Rightarrow> rx \<Rightarrow> pystr \<Rightarrow> re_match list" where
  "finditer U r t = finditer_from U r t 0"

text \<open>\<open>match.group()\<close> and \<open>match.group(n)\<close>.\<close>

definition group0 :: "pystr \<Rightarrow> re_match \<Rightarrow> pystr" where
  "group0 t m = py_slice t (m_start m) (m_end m)"

definition group :: "pystr \<Rightarrow> re_match \<Rightarrow> nat \<Rightarrow> pystr" where
  "group t m n = (case map_of (m_groups m) n of None \<Rightarrow> [] | Some (a, b) \<Rightarrow> py_slice t a b)"

text \<open>Shorthands for writing the patterns of the source.\<close>

definition cat :: "rx list \<Rightarrow> rx" where
  "cat rs = foldr Cat rs Eps"

definition chr :: "char \<Rightarrow> codepoint \<Rightarrow> bool" where
  "chr c x = (x = of_char c)"

definition among :: "string \<Rightarrow> codepoint \<Rightarrow> bool" where
  "among cs x = (x \<in> set (str cs))"

definition between :: "char \<Rightarrow> char \<Rightarrow> codepoint \<Rightarrow> bool" where
  "between a b x = (of_char a \<le> x \<and> x \<le> of_char b)"

definition lit :: "pystr \<Rightarrow> rx" where
  "lit s = cat (map (\<lambda>c. Cls (\<lambda>x. x = c)) s)"

definition opt :: "rx \<Rightarrow> rx" where
  "opt r = Alt r Eps"

definition opt_cls :: "(codepoint \<Rightarrow> bool) \<Rightarrow> rx" where
  "opt_cls p = Rep 0 (Some 1) p"

definition exactly :: "nat \<Rightarrow> (codepoint \<Rightarrow> bool) \<Rightarrow> rx" where
  "exactly n p = Rep n (Some n) p"

definition many1 :: "(codepoint \<Rightarrow> bool) \<Rightarrow> rx" where
  "many1 p = Rep 1 None p"

text \<open>
  \<open>needs d r\<close>: by its shape, every match of \<open>r\<close> contains a character of the class \<open>d\<close>.
  It is used to show that a pattern finds nothing in a text without such characters.
\<close>

fun needs :: "(codepoint \<Rightarrow> bool) \<Rightarrow> rx \<Rightarrow> bool" where
  "needs d (Cls p) = (\<forall>c. p c \<longrightarrow> d c)"
| "needs d (Rep lo hi p) = (0 < lo \<and> (\<forall>c. p c \<longrightarrow> d c))"
| "needs d (Cat a b) = (needs d a \<or> needs d b)"
| "needs d (Alt a b) = (needs d a \<and> needs d b)"
| "needs d (Grp n r) = needs d r"
| "needs d Eps = False"
| "needs d (NotBehind p) = False"
| "needs d (NotAhead p) = False"
| "needs d WordB = False"

section \<open>Recognisers\<close>

subsection \<open>International phone numbers\<close>

text \<open>
  One entry of \<open>PHONE_PATTERNS\<close>: the pattern, the accepted length after the separators
  are removed, the optional prefix validator and the confidence. Confidences are decimal
  literals that the program only stores and compares; they are modelled as the rational
  numbers the literals denote.
\<close>

record phone_config =
  pattern :: rx
  min_length :: nat
  max_length :: nat
  prefix_validator :: "(pystr \<Rightarrow> bool) option"
  confidence :: real

text \<open>The classes and the optional country prefix shared by the patterns.\<close>

definition digit :: "codepoint \<Rightarrow> bool" where
  "digit = is_digit_ascii"

definition sep :: "codepoint \<Rightarrow> bool" where
  "sep c = (c = of_char CHR ''-'' \<or> is_space c)"

definition country :: "string \<Rightarrow> rx" where
  "country code = opt (cat [opt_cls (chr CHR ''+''), lit (str code), opt_cls sep])"

text \<open>The prefixes the validator of the \<open>CN\<close> entry accepts: \<open>x[:3] in {...}\<close>.\<close>

definition cn_prefixes :: "pystr list" where
  "cn_prefixes = map str
    [''130'', ''131'', ''132'', ''133'', ''134'', ''135'', ''136'', ''137'', ''138'',
     ''139'', ''145'', ''147'', ''149'', ''150'', ''151'', ''152'', ''153'', ''155'',
     ''156'', ''157'', ''158'', ''159'', ''165'', ''166'', ''170'', ''171'', ''173'',
     ''175'', ''176'', ''177'', ''178'', ''180'', ''181'', ''182'', ''183'', ''184'',
     ''185'', ''186'', ''187'', ''188'', ''189'', ''190'', ''191'', ''192'', ''193'',
     ''195'', ''196'', ''197'', ''198'', ''199'']"

definition cn_prefix_validator :: "pystr \<Rightarrow> bool" where
  "cn_prefix_validator x = (take 3 x \<in> set cn_prefixes)"

text \<open>
  The table, in the order of the source (a \<open>dict\<close> is iterated in insertion order).
  \<^item> \<open>CN\<close>: \<^verbatim>\<open>(?<![0-9])1[3-9][0-9]{9}(?![0-9])\<close>
  \<^item> \<open>HK\<close>: \<^verbatim>\<open>(?<![0-9])(?:\+?852[-\s]?)?[569][0-9]{3}[-\s]?[0-9]{4}(?![0-9])\<close>
  \<^item> \<open>TW\<close>: \<^verbatim>\<open>(?<![0-9])(?:\+?886[-\s]?)?0?9[0-9]{2}[-\s]?[0-9]{3}[-\s]?[0-9]{3}(?![0-9])\<close>
  \<^item> \<open>US_CA\<close>: \<^verbatim>\<open>(?<![0-9])(?:\+?1[-\s]?)?\(?[2-9][0-9]{2}\)?[-\s]?[2-9][0-9]{2}[-\s]?[0-9]{4}(?![0-9])\<close>
  \<^item> \<open>UK\<close>: \<^verbatim>\<open>(?<![0-9])(?:\+?44[-\s]?)?0?7[0-9]{3}[-\s]?[0-9]{6}(?![0-9])\<close>
  \<^item> \<open>SG\<close>: \<^verbatim>\<open>(?<![0-9])(?:\+?65[-\s]?)?[689][0-9]{3}[-\s]?[0-9]{4}(?![0-9])\<close>
  \<^item> \<open>MY\<close>: \<^verbatim>\<open>(?<![0-9])(?:\+?60[-\s]?)?1[0-9]{1}[-\s]?[0-9]{3,4}[-\s]?[0-9]{4}(?![0-9])\<close>
  \<^item> \<open>AU\<close>: \<^verbatim>\<open>(?<![0-9])(?:\+?61[-\s]?)?0?4[0-9]{2}[-\s]?[0-9]{3}[-\s]?[0-9]{3}(?![0-9])\<close>
  \<^item> \<open>NZ\<close>: \<^verbatim>\<open>(?<![0-9])(?:\+?64[-\s]?)?0?2[0-9]{1}[-\s]?[0-9]{3}[-\s]?[0-9]{4}(?![0-9])\<close>
  \<^item> \<open>JP\<close>: \<^verbatim>\<open>(?<![0-9])(?:\+?81[-\s]?)?0?(?:70|80|90)[-\s]?[0-9]{4}[-\s]?[0-9]{4}(?![0-9])\<close>
  \<^item> \<open>KR\<close>: \<^verbatim>\<open>(?<![0-9])(?:\+?82[-\s]?)?0?1[0-9][-\s]?[0-9]{3,4}[-\s]?[0-9]{4}(?![0-9])\<close>
  \<^item> \<open>IN\<close>: \<^verbatim>\<open>(?<![0-9])(?:\+?91[-\s]?)?[6-9][0-9]{4}[-\s]?[0-9]{5}(?![0-9])\<close>
\<close>

definition PHONE_PATTERNS :: "(string \<times> phone_config) list" where
  "PHONE_PATTERNS =
    [(''CN'', \<lparr> pattern = cat [NotBehind digit, Cls (chr CHR ''1''), Cls (between CHR ''3'' CHR ''9''),
                 exactly 9 digit, NotAhead digit],
             min_length = 11, max_length = 11,
             prefix_validator = Some cn_prefix_validator, confidence = 0.95 \<rparr>),
     (''HK'', \<lparr> pattern = cat [NotBehind digit, country ''852'', Cls (among ''569''), exactly 3 digit,
                 opt_cls sep, exactly 4 digit, NotAhead digit],
             min_length = 8, max_length = 12, prefix_validator = None, confidence = 0.90 \<rparr>),
     (''TW'', \<lparr> pattern = cat [NotBehind digit, country ''886'', opt_cls (chr CHR ''0''),
                 Cls (chr CHR ''9''), exactly 2 digit, opt_cls sep, exactly 3 digit, opt_cls sep,
                 exactly 3 digit, NotAhead digit],
             min_length = 9, max_length = 15, prefix_validator = None, confidence = 0.90 \<rparr>),
     (''US_CA'', \<lparr> pattern = cat [NotBehind digit, country ''1'', opt_cls (chr CHR ''(''),
                 Cls (between CHR ''2'' CHR ''9''), exactly 2 digit, opt_cls (chr CHR '')''),
                 opt_cls sep, Cls (between CHR ''2'' CHR ''9''), exactly 2 digit, opt_cls sep,
                 exactly 4 digit, NotAhead digit],
             min_length = 10, max_length = 16, prefix_validator = None, confidence = 0.85 \<rparr>),
     (''UK'', \<lparr> pattern = cat [NotBehind digit, country ''44'', opt_cls (chr CHR ''0''),
                 Cls (chr CHR ''7''), exactly 3 digit, opt_cls sep, exactly 6 digit, NotAhead digit],
             min_length = 10, max_length = 15, prefix_validator = None, confidence = 0.85 \<rparr>),
     (''SG'', \<lparr> pattern = cat [NotBehind digit, country ''65'', Cls (among ''689''), exactly 3 digit,
                 opt_cls sep, exactly 4 digit, NotAhead digit],
             min_length = 8, max_length = 12, prefix_validator = None, confidence = 0.85 \<rparr>),
     (''MY'', \<lparr> pattern = cat [NotBehind digit, country ''60'', Cls (chr CHR ''1''), exactly 1 digit,
                 opt_cls sep, Rep 3 (Some 4) digit, opt_cls sep, exactly 4 digit, NotAhead digit],
             min_length = 9, max_length = 12, prefix_validator = None, confidence = 0.85 \<rparr>),
     (''AU'', \<lparr> pattern = cat [NotBehind digit, country ''61'', opt_cls (chr CHR ''0''),
                 Cls (chr CHR ''4''), exactly 2 digit, opt_cls sep, exactly 3 digit, opt_cls sep,
                 exactly 3 digit, NotAhead digit],
             min_length = 9, max_length = 12, prefix_validator = None, confidence = 0.85 \<rparr>),
     (''NZ'', \<lparr> pattern = cat [NotBehind digit, country ''64'', opt_cls (chr CHR ''0''),
                 Cls (chr CHR ''2''), exactly 1 digit, opt_cls sep, exactly 3 digit, opt_cls sep,
                 exactly 4 digit, NotAhead digit],
             min_length = 9, max_length = 12, prefix_validator = None, confidence = 0.85 \<rparr>),
     (''JP'', \<lparr> pattern = cat [NotBehind digit, country ''81'', opt_cls (chr CHR ''0''),
                 Alt (lit (str ''70'')) (Alt (lit (str ''80'')) (lit (str ''90''))), opt_cls sep,
                 exactly 4 digit, opt_cls sep, exactly 4 digit, NotAhead digit],
             min_length = 10, max_length = 13, prefix_validator = None, confidence = 0.85 \<rparr>),
     (''KR'', \<lparr> pattern = cat [NotBehind digit, country ''82'', opt_cls (chr CHR ''0''),
                 Cls (chr CHR ''1''), Cls digit, opt_cls sep, Rep 3 (Some 4) digit, opt_cls sep,
                 exactly 4 digit, NotAhead digit],
             min_length = 10, max_length = 13, prefix_validator = None, confidence = 0.85 \<rparr>),
     (''IN'', \<lparr> pattern = cat [NotBehind digit, country ''91'', Cls (between CHR ''6'' CHR ''9''),
                 exactly 4 digit, opt_cls sep, exactly 5 digit, NotAhead digit],
             min_length = 10, max_length = 12, prefix_validator = None, confidence = 0.85 \<rparr>)]"

text \<open>
  A result of \<open>InternationalPhoneRecognizer.analyze\<close>: a dictionary with the keys
  \<open>text\<close>, \<open>start\<close>, \<open>end\<close>, \<open>type\<close>, \<open>score\<close> and \<open>region\<close>.
\<close>

record phone_hit =
  ph_text :: pystr
  ph_start :: nat
  ph_end :: nat
  ph_type :: string
  ph_score :: real
  ph_region :: string

text \<open>\<^verbatim>\<open>re.sub(r'[\s\-\+\(\)]', '', raw_match)\<close>\<close>

definition clean_num :: "pystr \<Rightarrow> pystr" where
  "clean_num raw_match = filter (\<lambda>c. \<not> (is_space c \<or> c \<in> set (str ''-+()''))) raw_match"

text \<open>
  The body of the inner loop for one match: \<open>None\<close> where the source says \<open>continue\<close>.
\<close>

definition phone_candidate :: "pystr \<Rightarrow> string \<Rightarrow> phone_config \<Rightarrow> re_match \<Rightarrow> phone_hit option" where
  "phone_candidate t region config m =
     (let raw_match = group0 t m; clean = clean_num raw_match in
      if \<not> (min_length config \<le> length clean \<and> length clean \<le> max_length config) then None
      else if (case prefix_validator config of None \<Rightarrow> False | Some v \<Rightarrow> \<not> v clean) then None
      else Some \<lparr> ph_text = raw_match, ph_start = m_start m, ph_end = m_end m,
                  ph_type = ''PHONE_NUMBER'', ph_score = confidence config, ph_region = region \<rparr>)"

definition phone_analyze :: "unicode_tables \<Rightarrow> pystr \<Rightarrow> phone_hit list" where
  "phone_analyze U t =
     concat (map (\<lambda>(region, config).
                    List.map_filter (phone_candidate t region config) (finditer U (pattern config) t))
                 PHONE_PATTERNS)"

subsection \<open>Romanised surnames\<close>

text \<open>The three word sets of \<open>SurnameManager\<close>.\<close>

definition single_surnames :: "pystr list" where
  "single_surnames = map str
    [''bai'', ''ban'', ''bao'', ''bei'', ''bi'', ''bian'', ''biao'', ''bie'', ''bin'',
     ''bing'', ''bo'', ''bu'', ''cai'', ''cao'', ''cen'', ''chai'', ''chan'', ''chang'',
     ''chao'', ''che'', ''chen'', ''cheng'', ''chi'', ''chong'', ''chou'', ''chu'',
     ''chuan'', ''chuang'', ''chun'', ''ci'', ''cong'', ''cui'', ''cun'', ''cuo'', ''da'',
     ''dai'', ''dan'', ''dang'', ''dao'', ''de'', ''deng'', ''di'', ''dian'', ''diao'',
     ''ding'', ''diu'', ''dong'', ''dou'', ''du'', ''duan'', ''dun'', ''duo'', ''e'', ''en'',
     ''er'', ''fa'', ''fan'', ''fang'', ''fei'', ''fen'', ''feng'', ''fo'', ''fou'', ''fu'',
     ''ga'', ''gai'', ''gan'', ''gang'', ''gao'', ''ge'', ''gei'', ''gen'', ''geng'',
     ''gong'', ''gou'', ''gu'', ''gua'', ''guai'', ''guan'', ''guang'', ''gui'', ''gun'',
     ''guo'', ''ha'', ''hai'', ''han'', ''hang'', ''hao'', ''he'', ''hei'', ''hen'',
     ''heng'', ''hong'', ''hou'', ''hu'', ''hua'', ''huai'', ''huan'', ''huang'', ''hui'',
     ''hun'', ''huo'', ''ji'', ''jia'', ''jian'', ''jiang'', ''jiao'', ''jie'', ''jin'',
     ''jing'', ''jiong'', ''jiu'', ''ju'', ''juan'', ''jue'', ''jun'', ''ka'', ''kai'',
     ''kan'', ''kang'', ''kao'', ''ke'', ''ken'', ''keng'', ''kong'', ''kou'', ''ku'',
     ''kua'', ''kuai'', ''kuan'', ''kuang'', ''kui'', ''kun'', ''kuo'', ''la'', ''lai'',
     ''lan'', ''lang'', ''lao'', ''le'', ''lei'', ''leng'', ''li'', ''lia'', ''lian'',
     ''liang'', ''liao'', ''lie'', ''lin'', ''ling'', ''liu'', ''long'', ''lou'', ''lu'',
     ''luan'', ''lun'', ''luo'', ''ma'', ''mai'', ''man'', ''mang'', ''mao'', ''me'',
     ''mei'', ''men'', ''meng'', ''mi'', ''mian'', ''miao'', ''mie'', ''min'', ''ming'',
     ''miu'', ''mo'', ''mou'', ''mu'', ''na'', ''nai'', ''nan'', ''nang'', ''nao'', ''ne'',
     ''nei'', ''nen'', ''neng'', ''ni'', ''nian'', ''niang'', ''niao'', ''nie'', ''nin'',
     ''ning'', ''niu'', ''nong'', ''nu'', ''nuan'', ''o'', ''ou'', ''pa'', ''pai'', ''pan'',
     ''pang'', ''pao'', ''pei'', ''pen'', ''peng'', ''pi'', ''pian'', ''piao'', ''pie'',
     ''pin'', ''ping'', ''po'', ''pou'', ''pu'', ''qi'', ''qia'', ''qian'', ''qiang'',
     ''qiao'', ''qie'', ''qin'', ''qing'', ''qiong'', ''qiu'', ''qu'', ''quan'', ''que'',
     ''qun'', ''ran'', ''rang'', ''rao'', ''re'', ''ren'', ''reng'', ''ri'', ''rong'',
     ''rou'', ''ru'', ''ruan'', ''rui'', ''run'', ''ruo'', ''sa'', ''sai'', ''san'',
     ''sang'', ''sao'', ''se'', ''sen'', ''seng'', ''sha'', ''shai'', ''shan'', ''shang'',
     ''shao'', ''she'', ''shen'', ''sheng'', ''shi'', ''shou'', ''shu'', ''shua'', ''shuai'',
     ''shuan'', ''shuang'', ''shui'', ''shun'', ''shuo'', ''si'', ''song'', ''sou'', ''su'',
     ''suan'', ''sui'', ''sun'', ''suo'', ''ta'', ''tai'', ''tan'', ''tang'', ''tao'',
     ''te'', ''teng'', ''ti'', ''tian'', ''tiao'', ''tie'', ''ting'', ''tong'', ''tou'',
     ''tu'', ''tuan'', ''tui'', ''tun'', ''tuo'', ''wa'', ''wai'', ''wan'', ''wang'',
     ''wei'', ''wen'', ''weng'', ''wo'', ''wu'', ''xi'', ''xia'', ''xian'', ''xiang'',
     ''xiao'', ''xie'', ''xin'', ''xing'', ''xiong'', ''xiu'', ''xu'', ''xuan'', ''xue'',
     ''xun'', ''ya'', ''yan'', ''yang'', ''yao'', ''ye'', ''yi'', ''yin'', ''ying'', ''yo'',
     ''yong'', ''you'', ''yu'', ''yuan'', ''yue'', ''yun'', ''za'', ''zai'', ''zan'',
     ''zang'', ''zao'', ''ze'', ''zei'', ''zen'', ''zeng'', ''zha'', ''zhai'', ''zhan'',
     ''zhang'', ''zhao'', ''zhe'', ''zhen'', ''zheng'', ''zhi'', ''zhong'', ''zhou'',
     ''zhu'', ''zhua'', ''zhuai'', ''zhuan'', ''zhuang'', ''zhui'', ''zhun'', ''zhuo'',
     ''zi'', ''zong'', ''zou'', ''zu'', ''zuan'', ''zui'', ''zun'', ''zuo'', ''lee'', ''ng'',
     ''yung'', ''yee'', ''yip'', ''teoh'', ''tay'', ''tham'', ''woon'', ''chan'', ''chiu'',
     ''chao'', ''wong'', ''hwang'', ''chou'', ''shyu'', ''hsu'', ''suen'', ''kwok'', ''ho'',
     ''lam'', ''lo'', ''cheng'', ''tsieh'', ''yuen'', ''tsang'', ''chong'', ''chung'',
     ''tsui'', ''shek'', ''shum'', ''cheung'', ''cheong'', ''chueng'', ''leung'', ''leong'',
     ''yeung'', ''chau'', ''lau'', ''kwan'', ''kwong'', ''yau'']"

definition compound_surnames :: "pystr list" where
  "compound_surnames = map str
    [''ouyang'', ''shangguan'', ''sima'', ''zhuge'', ''ximen'', ''beigong'', ''gongsun'',
     ''chunyu'', ''dantai'', ''dongfang'', ''duanmu'', ''gongxi'', ''gongye'', ''guliang'',
     ''guanqiu'', ''haan'', ''huangfu'', ''jiagu'', ''jinyun'', ''lanxu'', ''liangqiu'',
     ''linghu'', ''lvqiu'', ''moyao'', ''nangong'', ''shusun'', ''situ'', ''taihu'',
     ''weisheng'', ''wuyan'', ''xiahou'', ''xianyu'', ''xiangsi'', ''xueqiu'', ''yanshi'',
     ''yuchi'', ''zhaoshe'', ''zhengxi'', ''zhongli'', ''zhongsun'', ''zhuanyu'',
     ''zhuansun'', ''zongzheng'', ''zuifu'', ''nalan'', ''auyeung'', ''szeto'']"

definition blacklist :: "pystr list" where
  "blacklist = map str
    [''change'', ''challenge'', ''chance'', ''channel'', ''charge'', ''chart'', ''chat'',
     ''cheap'', ''check'', ''cheese'', ''chemical'', ''chest'', ''chicken'', ''chief'',
     ''child'', ''china'', ''chinese'', ''chocolate'', ''choice'', ''choose'', ''christmas'',
     ''church'', ''cinema'', ''admin'', ''root'', ''user'', ''test'', ''guest'', ''default'',
     ''password'', ''username'', ''login'', ''logout'', ''system'', ''server'', ''client'',
     ''database'', ''email'', ''mail'', ''phone'', ''mobile'', ''contact'', ''info'',
     ''information'', ''address'', ''name'', ''id'', ''account'', ''profile'', ''setting'',
     ''config'', ''configuration'', ''api'', ''interface'', ''example'', ''gmail'',
     ''yahoo'', ''hotmail'', ''qq'', ''163'', ''126'', ''sina'', ''outlook'', ''icloud'',
     ''protonmail'', ''foxmail'', ''aliyun'', ''sohu'', ''yeah'', ''live'', ''msn'',
     ''this'', ''that'', ''with'', ''from'', ''they'', ''have'', ''were'', ''said'',
     ''time'', ''than'', ''them'', ''into'', ''just'', ''like'', ''over'', ''also'',
     ''back'', ''only'', ''know'', ''take'', ''year'', ''good'', ''some'', ''come'',
     ''make'', ''well'', ''very'', ''when'', ''much'', ''would'', ''there'', ''their'',
     ''what'', ''about'', ''which'', ''after'', ''first'', ''never'', ''these'', ''think'',
     ''where'', ''being'', ''every'', ''great'', ''might'', ''shall'', ''while'', ''those'',
     ''before'', ''should'', ''himself'', ''themselves'', ''both'', ''any'', ''each'',
     ''few'', ''more'', ''most'', ''other'', ''some'', ''such'', ''what'', ''which'',
     ''who'', ''whom'', ''whose'', ''why'', ''how'', ''all'', ''any'', ''both'', ''each'',
     ''few'', ''more'', ''most'', ''other'', ''some'', ''such'', ''no'', ''nor'', ''not'',
     ''only'', ''own'', ''same'', ''so'', ''than'', ''too'', ''very'']"

definition is_surname :: "unicode_tables \<Rightarrow> pystr \<Rightarrow> bool" where
  "is_surname U word =
     (let w_lower = py_lower U word in
      if w_lower \<in> set blacklist then False
      else w_lower \<in> set single_surnames \<or> w_lower \<in> set compound_surnames)"

text \<open>\<^verbatim>\<open>\b([A-Z][a-z]+)\s+([A-Z][a-z]+)\b\<close>\<close>

definition name_pair :: rx where
  "name_pair = cat [WordB, Grp 1 (cat [Cls is_upper_ascii, many1 is_lower_ascii]), many1 is_space,
                    Grp 2 (cat [Cls is_upper_ascii, many1 is_lower_ascii]), WordB]"

text \<open>
  A result of \<open>detect_names\<close>: a dictionary with the keys \<open>text\<close>, \<open>start\<close>, \<open>end\<close>,
  \<open>type\<close> and \<open>score\<close>.
\<close>

record name_hit =
  nh_text :: pystr
  nh_start :: nat
  nh_end :: nat
  nh_type :: string
  nh_score :: real

definition name_hit_of :: "pystr \<Rightarrow> re_match \<Rightarrow> real \<Rightarrow> name_hit" where
  "name_hit_of t m sc =
     \<lparr> nh_text = group0 t m, nh_start = m_start m, nh_end = m_end m, nh_type = ''PERSON'',
       nh_score = sc \<rparr>"

text \<open>
  \<open>detect_names\<close> runs two loops over the same matches and appends to one list: first
  the pairs with a surname in either word (0.85), then the pairs whose first word is a
  compound surname (0.9).
\<close>

definition detect_names :: "unicode_tables \<Rightarrow> pystr \<Rightarrow> name_hit list" where
  "detect_names U t =
     (let results =
            map (\<lambda>m. name_hit_of t m 0.85)
              (filter (\<lambda>m. is_surname U (group t m 1) \<or> is_surname U (group t m 2))
                 (finditer U name_pair t))
      in results @
         map (\<lambda>m. name_hit_of t m 0.9)
           (filter (\<lambda>m. py_lower U (group t m 1) \<in> set compound_surnames)
              (finditer U name_pair t)))"

subsection \<open>Names in Chinese script\<close>

text \<open>
  The surnames of the fallback recogniser, as code points, in the order of the source,
  and the traditional forms \<open>_get_custom_chinese_names\<close> adds when they are missing.
\<close>

definition chinese_surnames :: "pystr list" where
  "chinese_surnames =
    [[36213], [38065], [23385], [26446], [21608], [21556], [37073], [29579], [20911],
     [38472], [35098], [21355], [33931], [27784], [38889], [26472], [26417], [31206],
     [23588], [35768], [20309], [21525], [26045], [24352], [23380], [26361], [20005],
     [21326], [37329], [39759], [38518], [23004], [26519], [39532], [32993], [39640],
     [26753], [23435], [37011], [21494], [33487], [21346], [32599], [37101], [36182],
     [35874], [37041], [20399], [26366], [40654], [28504], [26460], [37049], [34945],
     [19969], [34081], [23828], [34203], [24278], [23609], [27573], [38647], [33539],
     [27754], [38515], [40643], [24373], [21129], [21555], [37165], [34083], [37159],
     [33865], [34311], [30439], [32645], [36084], [35613], [37758], [39342], [39340],
     [26954], [26753], [23435], [35377], [34157], [40852], [35674], [27431, 38451], [22826,
     21490], [31471, 26408], [19978, 23448], [21496, 39532], [19996, 26041], [29420, 23396],
     [21335, 23467], [19975, 20447], [38395, 20154], [22799, 20399], [35832, 33883], [23561,
     36831], [20844, 32650], [27472, 38525], [21496, 39340], [26481, 26041], [29544, 23396],
     [21335, 23470], [33836, 20447], [32862, 20154], [35576, 33883], [23561, 36978]]"

definition trad_additions :: "pystr list" where
  "trad_additions =
    [[38515], [40643], [24373], [21129], [21555], [37165], [34083], [37159], [33865],
     [34311], [30439], [32645], [36084], [35613], [37758]]"

text \<open>
  The pattern is built once: the surnames, longest first (\<open>sorted\<close> is stable), joined by
  \<open>|\<close> in a group, followed by \<^verbatim>\<open>[\u2e80-\u9fff]{1,2}\<close>.
\<close>

definition surnames_with_additions :: "pystr list" where
  "surnames_with_additions =
     foldl (\<lambda>surnames s. if s \<in> set surnames then surnames else surnames @ [s])
       chinese_surnames trad_additions"

fun alternatives :: "rx list \<Rightarrow> rx" where
  "alternatives [] = Cls (\<lambda>c. False)"
| "alternatives [r] = r"
| "alternatives (r # rs) = Alt r (alternatives rs)"

definition chinese_name_pattern :: rx where
  "chinese_name_pattern =
     cat [Grp 1 (alternatives
                   (map lit (sort_key (\<lambda>s. - int (length s)) surnames_with_additions))),
          Rep 1 (Some 2) (\<lambda>c. 11904 \<le> c \<and> c \<le> 40959)]"

text \<open>
  A result of \<open>_get_custom_chinese_names\<close> or \<open>_get_hanlp_entities\<close>: a dictionary with
  the keys \<open>text\<close>, \<open>start\<close>, \<open>end\<close> and \<open>type\<close>.
\<close>

record cn_hit =
  cn_text :: pystr
  cn_start :: nat
  cn_end :: nat
  cn_type :: string

definition get_custom_chinese_names :: "unicode_tables \<Rightarrow> pystr \<Rightarrow> cn_hit list" where
  "get_custom_chinese_names U t =
     map (\<lambda>m. \<lparr> cn_text = group0 t m, cn_start = m_start m, cn_end = m_end m,
                cn_type = ''REGEX_NAME'' \<rparr>)
       (finditer U chinese_name_pattern t)"

section \<open>Validators\<close>

subsection \<open>Booking references\<close>

text \<open>The two word sets of \<open>AirlinePIIRedactor.__init__\<close>, in the order of the source.\<close>

definition pnr_blacklist :: "pystr list" where
  "pnr_blacklist = map str
    [''FLIGHT'', ''TICKET'', ''BOARD'', ''SEATS'', ''CABIN'', ''PILOT'', ''STAFF'',
     ''HOTEL'', ''EVENT'', ''FIRST'', ''CLASS'', ''TOTAL'', ''GROUP'', ''WORLD'', ''HELLO'',
     ''THANK'', ''DELAY'', ''CLAIM'', ''ROUTE'', ''ADULT'', ''CHILD'', ''PRICE'', ''TAXES'',
     ''CHECK'', ''VALID'', ''ISSUE'', ''EMAIL'', ''PHONE'', ''OFFER'', ''POINT'', ''MILES'',
     ''PARTY'', ''GUEST'', ''SORRY'', ''REPLY'', ''ADMIN'', ''AGENT'', ''HOURS'', ''DATES'',
     ''TIMES'', ''MONTH'', ''YEARS'', ''COACH'', ''INFANT'', ''BAGGAGE'', ''LUGGAGE'',
     ''CREW'', ''STATUS'', ''GATE'', ''ARRIVAL'', ''DEPART'', ''ROUND'', ''TRIP'', ''FARES'',
     ''CODES'', ''RULES'', ''TERMS'', ''APPLY'', ''ABOUT'', ''PRESS'', ''MEDIA'', ''LOGIN'',
     ''WHERE'', ''THERE'', ''WHICH'', ''OTHER'', ''THEIR'', ''BELOW'', ''ABOVE'', ''UNDER'',
     ''AFTER'', ''UNTIL'', ''SINCE'', ''WHILE'', ''NEVER'', ''AGAIN'', ''ENTRY'', ''EXIT'',
     ''AISLE'', ''MEALS'', ''SNACK'', ''DRINK'', ''WATER'', ''JUICE'', ''WINES'', ''BEERS'',
     ''SALES'', ''DEALS'', ''CARGO'', ''FLEET'', ''UNION'', ''TRUST'', ''VALUE'', ''SCORE'',
     ''LEVEL'', ''TIERS'', ''BASIC'', ''SMART'', ''SUPER'', ''HAPPY'', ''ENJOY'', ''VISIT'',
     ''WATCH'', ''VIDEO'', ''AUDIO'', ''MUSIC'', ''MOVIE'', ''POWER'', ''LIGHT'', ''NIGHT'',
     ''DAILY'', ''WEEK'', ''TODAY'', ''LATER'', ''EARLY'', ''QUICK'', ''SPEED'', ''SPACE'',
     ''PLACE'', ''TOUCH'', ''SCREEN'', ''PANEL'', ''LEVER'', ''PEDAL'', ''WHEEL'', ''TIRES'',
     ''BRAKE'', ''GEARS'', ''WING'', ''TAIL'', ''NOSE'', ''BODY'', ''PAINT'', ''COLOR'',
     ''WHITE'', ''BLACK'', ''GREEN'', ''STYLE'', ''MODEL'', ''BUILD'', ''MAKER'', ''OWNER'',
     ''BUYER'', ''LEASE'', ''RENT'', ''HIRE'', ''COSTS'', ''SPEND'', ''MONEY'', ''CASH'',
     ''CARD'', ''DEBIT'', ''BANKS'', ''LOANS'', ''RATES'', ''TAXIS'', ''TRAIN'', ''BUSES'',
     ''METRO'', ''FERRY'', ''SHIPS'', ''BOAT'', ''CYCLE'', ''DRIVE'', ''RIDER'', ''WALKS'',
     ''STEPS'', ''MILE'', ''METER'', ''KILO'', ''GRAMS'', ''POUND'', ''OUNCE'', ''LITER'',
     ''GALLON'', ''REFUND'', ''CANCEL'', ''UPDATE'', ''NOTICE'', ''ALERT'', ''SAFETY'',
     ''OXYGEN'', ''JACKET'', ''WINDOW'', ''MIDDLE'', ''CENTER'', ''GALLEY'', ''TOILET'',
     ''LOUNGE'', ''ACCESS'', ''MEMBER'', ''SILVER'', ''GOLD'', ''ELITE'', ''POINTS'',
     ''WALLET'', ''PAYMENT'', ''AMOUNT'', ''NUMBER'', ''COUNT'', ''COST'', ''RATE'',
     ''FARE'', ''CHARGES'', ''DUTY'', ''GOODS'', ''ITEMS'', ''BAGS'', ''PLANE'', ''AIRBUS'',
     ''BOEING'', ''HELPDESK'', ''SUPPORT'', ''OFFICE'', ''CENTER'', ''MOBILE'', ''APP'',
     ''WEB'', ''SITE'', ''LINK'', ''CLICK'', ''CHOOSE'', ''OPTION'', ''ACTION'', ''RESULT'',
     ''ERROR'', ''FAULT'', ''CASE'', ''FILE'', ''RECORD'', ''DATA'', ''INFO'', ''QUERY'',
     ''ASK'', ''HELP'', ''FAQ'', ''HOME'', ''MAIN'', ''MENU'', ''BACK'', ''NEXT'', ''PREV'',
     ''LAST'', ''DONE'', ''FINISH'', ''START'', ''END'', ''STOP'', ''OPEN'', ''CLOSE'',
     ''LOCK'', ''UNLOCK'']"

definition pnr_context_keywords :: "pystr list" where
  "pnr_context_keywords = map str
    [''pnr'', ''record locator'', ''booking'', ''reservation'', ''confirm'',
     ''confirmation'', ''itinerary'', ''ticket'', ''locator'', ''ref'', ''reference'']"

text \<open>
  \<open>is_valid_pnr(text, entity_text, start, end)\<close>. The window is
  \<open>text[max(0, start - 30) : min(len(text), end + 30)]\<close>.
\<close>

definition pnr_snippet :: "unicode_tables \<Rightarrow> pystr \<Rightarrow> nat \<Rightarrow> nat \<Rightarrow> pystr" where
  "pnr_snippet U t start end =
     (let window = 30;
          left = nat (max 0 (int start - window));
          right = min (length t) (end + nat window)
      in py_lower U (py_slice t left right))"

definition is_valid_pnr :: "unicode_tables \<Rightarrow> pystr \<Rightarrow> pystr \<Rightarrow> nat \<Rightarrow> nat \<Rightarrow> bool" where
  "is_valid_pnr U t entity_text start end =
     (if py_upper U entity_text \<in> set pnr_blacklist then False
      else if py_isalpha U entity_text \<and> \<not> py_isupper U entity_text then False
      else if list_ex (isdigit_cp U) entity_text then True
      else list_ex (\<lambda>k. py_in k (pnr_snippet U t start end)) pnr_context_keywords)"

text \<open>
  The literal of a booking-reference candidate: the pattern is \<^verbatim>\<open>\b[A-Z0-9]{5,6}\b\<close>,
  which the pattern recogniser applies without regard to case. So a literal is five or six
  characters, each an ASCII letter or digit or one of the four letters that such a
  pattern takes for an ASCII letter.
\<close>

definition pnr_literal :: "pystr \<Rightarrow> bool" where
  "pnr_literal s =
     ((length s = 5 \<or> length s = 6) \<and> list_all (\<lambda>c. is_alnum_ascii c \<or> ascii_partner c) s)"

subsection \<open>Flight numbers and frequent-flyer numbers\<close>

text \<open>
  \<open>is_valid_flight_number\<close> splits the text and rejects it when there are no parts; the
  test on the first part that follows in the source has an empty body. What decides is
  whether a character is lowercase.
\<close>

definition is_valid_flight_number :: "unicode_tables \<Rightarrow> pystr \<Rightarrow> bool" where
  "is_valid_flight_number U t =
     (let parts = py_split t in
      if parts = [] then False
      else if list_ex (islower_cp U) t then False
      else True)"

definition is_valid_frequent_flyer :: "unicode_tables \<Rightarrow> pystr \<Rightarrow> bool" where
  "is_valid_frequent_flyer U t =
     (if list_ex (islower_cp U) t then False
      else if py_isdigit U t then False
      else True)"

subsection \<open>Dates of birth\<close>

text \<open>
  Exceptions are values. \<open>ValueError\<close> stands for what \<open>except ValueError\<close> catches;
  \<open>OtherException\<close> is any other exception of class \<open>Exception\<close>, with the name of its
  class; \<open>Interrupt\<close> is an exception outside \<open>Exception\<close> (\<open>KeyboardInterrupt\<close>,
  \<open>SystemExit\<close>), which \<open>except Exception\<close> lets through and a bare \<open>except\<close> catches.
\<close>

datatype exn = ValueError | OtherException string | Interrupt string

fun is_Exception :: "exn \<Rightarrow> bool" where
  "is_Exception (Interrupt name) = False"
| "is_Exception e = True"

record datetime =
  year :: int
  month :: nat
  day :: nat

text \<open>
  The collaborators of a run, none of them code of the program: the statistical analyser,
  the optional Chinese entity recogniser (\<open>None\<close> when the model was not loaded), the
  anonymiser, the \<open>print\<close> of the error handler (\<open>None\<close> when the line was written, the
  exception when formatting or writing raised), \<open>datetime.strptime\<close>, the lenient parser
  \<open>dateutil.parser.parse\<close> (called with \<open>fuzzy=True\<close>) and the year of
  \<open>datetime.now()\<close>. A call returns \<open>Inr\<close> a value or raises, which is \<open>Inl\<close> an
  exception.
\<close>

record recognizer_result =
  entity_type :: string
  r_start :: nat
  r_end :: nat
  r_score :: real

datatype hanlp_item = Entity pystr string nat nat | Short

record runtime =
  analyzer_analyze :: "pystr \<Rightarrow> exn + recognizer_result list"
  hanlp_ner :: "(pystr \<Rightarrow> exn + hanlp_item list) option"
  anonymizer_anonymize :: "pystr \<Rightarrow> recognizer_result list \<Rightarrow> exn + pystr"
  print_error :: "exn \<Rightarrow> exn option"
  strptime :: "pystr \<Rightarrow> string \<Rightarrow> exn + datetime"
  parser_parse :: "pystr \<Rightarrow> exn + datetime"
  now_year :: int

text \<open>
  One strict parse inside its \<open>try\<close>: \<open>except ValueError\<close> passes on to the next
  attempt, any other exception leaves the nest.
\<close>

definition or_else :: "exn + 'a \<Rightarrow> (exn + 'a) \<Rightarrow> exn + 'a" where
  "or_else attempt handler =
     (case attempt of Inr v \<Rightarrow> Inr v
      | Inl e \<Rightarrow> if e = ValueError then handler else Inl e)"

text \<open>
  The part of \<open>is_likely_dob\<close> that produces \<open>dt\<close>. \<open>Inr None\<close> is the \<open>return False\<close> of
  the innermost handler. \<^verbatim>\<open>re.fullmatch(r'\d{8}', date_text)\<close> holds for a string of
  exactly eight decimal digits.
\<close>

definition parse_date :: "runtime \<Rightarrow> unicode_tables \<Rightarrow> pystr \<Rightarrow> exn + datetime option" where
  "parse_date R U date_text =
     (if length date_text = 8 \<and> list_all (re_digit U) date_text then
        or_else (map_sum id Some (strptime R date_text ''%m%d%Y''))
          (or_else (map_sum id Some (strptime R date_text ''%d%m%Y''))
             (or_else (map_sum id Some (strptime R date_text ''%Y%m%d''))
                (Inr None)))
      else
        (let clean_text = py_strip (collapse_ws date_text)
         in map_sum id Some (parser_parse R clean_text)))"

text \<open>The tests on \<open>dt.year\<close>, in the order of the source.\<close>

definition dob_year :: "int \<Rightarrow> int \<Rightarrow> bool" where
  "dob_year current_year y =
     (if y > current_year then False
      else if current_year - y \<le> 2 then False
      else if 1900 < y \<and> y \<le> current_year - 2 then True
      else False)"

definition dob_body :: "runtime \<Rightarrow> unicode_tables \<Rightarrow> pystr \<Rightarrow> exn + bool" where
  "dob_body R U date_text =
     (case parse_date R U date_text of
        Inl e \<Rightarrow> Inl e
      | Inr None \<Rightarrow> Inr False
      | Inr (Some dt) \<Rightarrow> Inr (dob_year (now_year R) (year dt)))"

text \<open>The outer \<open>try\<close> with its bare \<open>except: return False\<close>.\<close>

definition is_likely_dob :: "runtime \<Rightarrow> unicode_tables \<Rightarrow> pystr \<Rightarrow> exn + bool" where
  "is_likely_dob R U date_text =
     (case dob_body R U date_text of Inl e \<Rightarrow> Inr False | Inr b \<Rightarrow> Inr b)"

text \<open>
  \<open>datetime.strptime\<close> on a string of eight ASCII digits, for the three formats the
  program uses: the two-digit fields and the four-digit year are read, and the date must
  exist in the calendar (years 1 to 9999). It is the \<open>strptime\<close> of the example runs.
\<close>

definition digits_value :: "pystr \<Rightarrow> nat" where
  "digits_value s = foldl (\<lambda>a c. 10 * a + (c - 48)) 0 s"

definition days_in_month :: "nat \<Rightarrow> nat \<Rightarrow> nat" where
  "days_in_month y m =
     (if m = 2 then (if y mod 4 = 0 \<and> (y mod 100 \<noteq> 0 \<or> y mod 400 = 0) then 29 else 28)
      else if m = 4 \<or> m = 6 \<or> m = 9 \<or> m = 11 then 30 else 31)"

definition make_date :: "nat \<Rightarrow> nat \<Rightarrow> nat \<Rightarrow> exn + datetime" where
  "make_date y m d =
     (if 1 \<le> y \<and> y \<le> 9999 \<and> 1 \<le> m \<and> m \<le> 12 \<and> 1 \<le> d \<and> d \<le> days_in_month y m
      then Inr \<lparr> year = int y, month = m, day = d \<rparr> else Inl ValueError)"

definition strptime_digits :: "pystr \<Rightarrow> string \<Rightarrow> exn + datetime" where
  "strptime_digits s fmt =
     (if \<not> (length s = 8 \<and> list_all is_digit_ascii s) then Inl ValueError
      else if fmt = ''%m%d%Y'' then
        make_date (digits_value (drop 4 s)) (digits_value (take 2 s)) (digits_value (take 2 (drop 2 s)))
      else if fmt = ''%d%m%Y'' then
        make_date (digits_value (drop 4 s)) (digits_value (take 2 (drop 2 s))) (digits_value (take 2 s))
      else if fmt = ''%Y%m%d'' then
        make_date (digits_value (take 4 s)) (digits_value (take 2 (drop 4 s))) (digits_value (drop 6 s))
      else Inl ValueError)"

section \<open>The output normaliser\<close>

text \<open>
  \<open>_normalize_output\<close> is three substitutions and a strip. Each \<open>re.sub\<close> is written
  as the left-to-right scan it performs: a match is replaced and the scan resumes after
  it.
  \<^item> \<^verbatim>\<open>re.sub(r'([A-Za-z0-9])(\[)', r'\1 \2', text)\<close>
  \<^item> \<^verbatim>\<open>re.sub(r'(\])([A-Za-z0-9])', r'\1 \2', text)\<close>
  \<^item> \<^verbatim>\<open>re.sub(r'\s+', ' ', text).strip()\<close>

  Code point 91 is \<open>[\<close>, 93 is \<open>]\<close> and 32 is the space.
\<close>

fun space_before_open :: "pystr \<Rightarrow> pystr" where
  "space_before_open (a # b # xs) =
     (if is_alnum_ascii a \<and> b = 91 then a # 32 # b # space_before_open xs
      else a # space_before_open (b # xs))"
| "space_before_open xs = xs"

fun space_after_close :: "pystr \<Rightarrow> pystr" where
  "space_after_close (a # b # xs) =
     (if a = 93 \<and> is_alnum_ascii b then a # 32 # b # space_after_close xs
      else a # space_after_close (b # xs))"
| "space_after_close xs = xs"

definition normalize_output :: "pystr \<Rightarrow> pystr" where
  "normalize_output t = py_strip (collapse_ws (space_after_close (space_before_open t)))"


text \<open>
  Relations between neighbouring code points, used to describe normalised strings.
\<close>

definition tag_open_ok :: "codepoint \<Rightarrow> codepoint \<Rightarrow> bool" where
  "tag_open_ok a b = (\<not> (is_alnum_ascii a \<and> b = 91))"

definition tag_close_ok :: "codepoint \<Rightarrow> codepoint \<Rightarrow> bool" where
  "tag_close_ok a b = (\<not> (a = 93 \<and> is_alnum_ascii b))"

definition ws_ok :: "codepoint \<Rightarrow> codepoint \<Rightarrow> bool" where
  "ws_ok a b = (\<not> (is_space a \<and> is_space b))"

section \<open>The pipeline\<close>

subsection \<open>Collecting the candidates\<close>

text \<open>
  \<open>_get_hanlp_entities\<close>: no recogniser gives no entities, and so does a recogniser that
  raises an exception of class \<open>Exception\<close> (the handler is \<open>except Exception\<close>); any
  other exception leaves the function. An item shorter than four fields is skipped; the
  labels \<open>NR\<close>, \<open>PERSON\<close> and \<open>PER\<close> are kept.
\<close>

definition get_hanlp_entities :: "runtime \<Rightarrow> pystr \<Rightarrow> exn + cn_hit list" where
  "get_hanlp_entities R t =
     (case hanlp_ner R of
        None \<Rightarrow> Inr []
      | Some ner \<Rightarrow>
          (case ner t of
             Inl e \<Rightarrow> if is_Exception e then Inr [] else Inl e
           | Inr entities \<Rightarrow>
               Inr (List.map_filter
                 (\<lambda>item. case item of
                    Short \<Rightarrow> None
                  | Entity entity_text label start end \<Rightarrow>
                      if label \<in> set [''NR'', ''PERSON'', ''PER'']
                      then Some \<lparr> cn_text = entity_text, cn_start = start, cn_end = end,
                                  cn_type = label \<rparr>
                      else None)
                 entities)))"

text \<open>\<^verbatim>\<open>(?<!\d)\d{13}(?!\d)\<close>\<close>

definition sticky_ticket :: "unicode_tables \<Rightarrow> rx" where
  "sticky_ticket U = cat [NotBehind (re_digit U), exactly 13 (re_digit U), NotAhead (re_digit U)]"

definition RecognizerResult :: "string \<Rightarrow> nat \<Rightarrow> nat \<Rightarrow> real \<Rightarrow> recognizer_result" where
  "RecognizerResult ty s e sc = \<lparr> entity_type = ty, r_start = s, r_end = e, r_score = sc \<rparr>"

text \<open>
  Steps 2 to 5 of \<open>redact\<close>: the phone numbers, the Chinese names (the recogniser's
  entities without a Latin letter, then the pattern's), the romanised names and the runs
  of thirteen digits.
\<close>

definition phone_results :: "unicode_tables \<Rightarrow> pystr \<Rightarrow> recognizer_result list" where
  "phone_results U t =
     map (\<lambda>p. RecognizerResult ''PHONE_NUMBER'' (ph_start p) (ph_end p) (ph_score p))
       (phone_analyze U t)"

definition chinese_results :: "unicode_tables \<Rightarrow> pystr \<Rightarrow> cn_hit list \<Rightarrow> recognizer_result list" where
  "chinese_results U t hanlp_raw =
     (let custom_raw = get_custom_chinese_names U t;
          hanlp_entities =
            filter (\<lambda>e. \<not> list_ex (\<lambda>c. is_lower_ascii c \<or> is_upper_ascii c) (cn_text e)) hanlp_raw
      in map (\<lambda>entity. RecognizerResult ''PERSON'' (cn_start entity) (cn_end entity) 0.9)
           (hanlp_entities @ custom_raw))"

definition romanized_results :: "unicode_tables \<Rightarrow> pystr \<Rightarrow> recognizer_result list" where
  "romanized_results U t =
     map (\<lambda>r. RecognizerResult ''PERSON'' (nh_start r) (nh_end r) (nh_score r)) (detect_names U t)"

definition sticky_tickets :: "unicode_tables \<Rightarrow> pystr \<Rightarrow> recognizer_result list" where
  "sticky_tickets U t =
     map (\<lambda>m. RecognizerResult ''Ticket Number'' (m_start m) (m_end m) 0.9)
       (finditer U (sticky_ticket U) t)"

text \<open>
  Step 1 calls the analyser and step 3 the Chinese recogniser, both outside any \<open>try\<close> of
  \<open>redact\<close>; step 6 concatenates. An exception of the analyser, or one that
  \<open>_get_hanlp_entities\<close> does not catch, leaves \<open>redact\<close>.
\<close>

definition combined_results :: "runtime \<Rightarrow> unicode_tables \<Rightarrow> pystr \<Rightarrow> exn + recognizer_result list" where
  "combined_results R U t =
     (case analyzer_analyze R t of
        Inl e \<Rightarrow> Inl e
      | Inr results \<Rightarrow>
          (case get_hanlp_entities R t of
             Inl e \<Rightarrow> Inl e
           | Inr hanlp_raw \<Rightarrow>
               Inr (results @ phone_results U t @ chinese_results U t hanlp_raw
                    @ romanized_results U t @ sticky_tickets U t)))"

subsection \<open>Filtering\<close>

text \<open>The context words of a frequent-flyer number and the common words of step 7.\<close>

definition ff_context_keywords :: "pystr list" where
  "ff_context_keywords =
     map str [''flyer'', ''miles'', ''points'', ''member'', ''club'', ''program'', ''card'']"

definition common_name_words :: "pystr list" where
  "common_name_words =
     map str [''may'', ''will'', ''can'', ''long'', ''young'', ''man'', ''king'', ''mark'', ''rose'',
              ''read'', ''book'']"

text \<open>
  The body of the loop of step 7 for one candidate: whether it is appended to
  \<open>final_results\<close>. The helper \<open>is_overlap\<close> that the source defines before the loop is
  never called.
\<close>

definition keep_result :: "runtime \<Rightarrow> unicode_tables \<Rightarrow> pystr \<Rightarrow> recognizer_result \<Rightarrow> bool" where
  "keep_result R U t res =
     (let entity_text = py_strip (py_slice t (r_start res) (r_end res)) in
      if entity_type res = ''DATE_TIME'' then is_likely_dob R U entity_text = Inr True
      else if entity_type res = ''PNR'' then is_valid_pnr U t entity_text (r_start res) (r_end res)
      else if entity_type res = ''Flight Number'' then is_valid_flight_number U entity_text
      else if entity_type res = ''Frequent Flyer'' then
        (if is_valid_frequent_flyer U entity_text then
           (let window = 30;
                left = nat (max 0 (int (r_start res) - window));
                right = min (length t) (r_end res + nat window);
                snippet = py_lower U (py_slice t left right)
            in list_ex (\<lambda>k. py_in k snippet) ff_context_keywords)
         else False)
      else if entity_type res = ''PERSON'' then
        (if length (py_split entity_text) = 1 \<and> py_lower U entity_text \<in> set common_name_words
         then (if r_score res < 0.6 then False else True)
         else True)
      else True)"

fun filter_refine :: "runtime \<Rightarrow> unicode_tables \<Rightarrow> pystr \<Rightarrow> recognizer_result list
    \<Rightarrow> recognizer_result list \<Rightarrow> recognizer_result list" where
  "filter_refine R U t final_results [] = final_results"
| "filter_refine R U t final_results (res # rest) =
     filter_refine R U t
       (if keep_result R U t res then final_results @ [res] else final_results) rest"

text \<open>The list that step 8 hands to the anonymiser.\<close>

definition final_results :: "runtime \<Rightarrow> unicode_tables \<Rightarrow> pystr \<Rightarrow> exn + recognizer_result list" where
  "final_results R U t =
     (case combined_results R U t of
        Inl e \<Rightarrow> Inl e
      | Inr combined \<Rightarrow> Inr (filter_refine R U t [] combined))"

subsection \<open>Anonymising\<close>

text \<open>
  Step 8 is the only step in a \<open>try\<close>. Its handler is \<open>except Exception\<close>: it prints
  the exception and returns the text that was given. An exception outside \<open>Exception\<close>
  is not caught, and an exception of the \<open>print\<close> leaves \<open>redact\<close> as well.
\<close>

definition redact :: "runtime \<Rightarrow> unicode_tables \<Rightarrow> pystr \<Rightarrow> exn + pystr" where
  "redact R U t =
     (case final_results R U t of
        Inl e \<Rightarrow> Inl e
      | Inr final \<Rightarrow>
          (case anonymizer_anonymize R t final of
             Inr output_text \<Rightarrow> Inr (normalize_output output_text)
           | Inl e \<Rightarrow>
               if is_Exception e then
                 (case print_error R e of None \<Rightarrow> Inr t | Some e' \<Rightarrow> Inl e')
               else Inl e))"

text \<open>
  Two spans overlap as \<open>is_overlap\<close> tests it. A list is start-ordered and free of
  overlaps when, sorted by start, each span ends where the next starts or before.
\<close>

definition overlap :: "recognizer_result \<Rightarrow> recognizer_result \<Rightarrow> bool" where
  "overlap a b = (max (r_start a) (r_start b) < min (r_end a) (r_end b))"

definition non_overlapping :: "recognizer_result list \<Rightarrow> bool" where
  "non_overlapping rs = successively (\<lambda>a b. r_end a \<le> r_start b) (sort_key r_start rs)"

text \<open>
  Runs for the examples: one whose analyser finds nothing, whose anonymiser changes
  nothing, whose \<open>print\<close> works and whose lenient parser refuses every text, in the year
  2026; one whose analyser raises; one whose anonymiser raises.
\<close>

definition quiet_runtime :: runtime where
  "quiet_runtime =
     \<lparr> analyzer_analyze = (\<lambda>t. Inr []), hanlp_ner = None,
       anonymizer_anonymize = (\<lambda>t rs. Inr t), print_error = (\<lambda>e. None),
       strptime = strptime_digits, parser_parse = (\<lambda>t. Inl ValueError), now_year = 2026 \<rparr>"

definition failing_analyzer_runtime :: runtime where
  "failing_analyzer_runtime = quiet_runtime \<lparr> analyzer_analyze := (\<lambda>t. Inl ValueError) \<rparr>"

definition failing_anonymizer_runtime :: runtime where
  "failing_anonymizer_runtime =
     quiet_runtime \<lparr> anonymizer_anonymize := (\<lambda>t rs. Inl (OtherException ''InvalidParamError'')) \<rparr>"

section \<open>Facts about strings\<close>

text \<open>The definitions that evaluate a function on a literal.\<close>

lemmas char_class_defs = is_upper_ascii_def is_lower_ascii_def is_digit_ascii_def
  is_alnum_ascii_def is_space_def isalpha_cp_def isdigit_cp_def islower_cp_def isupper_cp_def
  istitle_cp_def lower_cp_def upper_cp_def re_word_def re_digit_def ascii_partner_def

lemmas py_str_defs = str_def py_lower_def py_upper_def py_isalpha_def py_isdigit_def
  py_isupper_def py_slice_def py_strip_def

lemma take_is_prefix: "(take (length k) s = k) = (\<exists>q. s = k @ q)"
proof
  assume "take (length k) s = k"
  then have "s = k @ drop (length k) s" by (metis append_take_drop_id)
  then show "\<exists>q. s = k @ q" ..
next
  assume "\<exists>q. s = k @ q"
  then show "take (length k) s = k" by auto
qed

lemma py_in_iff: "py_in k s = (\<exists>p q. s = p @ k @ q)"
proof (induction s)
  case Nil
  show ?case by auto
next
  case (Cons c cs)
  show ?case
  proof
    assume "py_in k (c # cs)"
    then consider "take (length k) (c # cs) = k" | "py_in k cs" by auto
    then show "\<exists>p q. c # cs = p @ k @ q"
    proof cases
      case 1
      then obtain q where "c # cs = k @ q" unfolding take_is_prefix by blast
      then have "c # cs = [] @ k @ q" by simp
      then show ?thesis by blast
    next
      case 2
      with Cons.IH obtain p q where "cs = p @ k @ q" by blast
      then have "c # cs = (c # p) @ k @ q" by simp
      then show ?thesis by blast
    qed
  next
    assume "\<exists>p q. c # cs = p @ k @ q"
    then obtain p q where pq: "c # cs = p @ k @ q" by blast
    show "py_in k (c # cs)"
    proof (cases p)
      case Nil
      with pq have "\<exists>q. c # cs = k @ q" by auto
      then have "take (length k) (c # cs) = k" unfolding take_is_prefix .
      then show ?thesis by simp
    next
      case (Cons a p')
      with pq have "cs = p' @ k @ q" by simp
      with Cons.IH have "py_in k cs" by blast
      then show ?thesis by simp
    qed
  qed
qed

lemma rev_split: "t = rev (dropWhile P (rev t)) @ rev (takeWhile P (rev t))"
proof -
  have "rev (dropWhile P (rev t)) @ rev (takeWhile P (rev t))
      = rev (takeWhile P (rev t) @ dropWhile P (rev t))" by (simp only: rev_append)
  also have "\<dots> = rev (rev t)" by (simp only: takeWhile_dropWhile_id)
  also have "\<dots> = t" by simp
  finally show ?thesis by simp
qed

lemma py_strip_part: "\<exists>p q. s = p @ py_strip s @ q"
proof -
  let ?t = "dropWhile is_space s"
  let ?u = "dropWhile is_space (rev ?t)"
  have t: "?t = rev ?u @ rev (takeWhile is_space (rev ?t))" by (rule rev_split)
  have "s = takeWhile is_space s @ ?t" by simp
  with t have "s = takeWhile is_space s @ rev ?u @ rev (takeWhile is_space (rev ?t))" by simp
  then show ?thesis unfolding py_strip_def by blast
qed

lemma py_strip_successively: "successively R s \<Longrightarrow> successively R (py_strip s)"
proof -
  assume a: "successively R s"
  obtain p q where "s = p @ py_strip s @ q" using py_strip_part by blast
  with a have "successively R (p @ py_strip s @ q)" by simp
  then show ?thesis unfolding successively_append_iff by blast
qed

lemma py_strip_set: "x \<in> set (py_strip s) \<Longrightarrow> x \<in> set s"
proof -
  assume a: "x \<in> set (py_strip s)"
  obtain p q where "s = p @ py_strip s @ q" using py_strip_part by blast
  then have "set s = set p \<union> set (py_strip s) \<union> set q" by (metis set_append Un_assoc)
  with a show ?thesis by blast
qed

lemma py_strip_idem: "py_strip (py_strip s) = py_strip s"
proof -
  let ?t = "dropWhile is_space s"
  let ?u = "dropWhile is_space (rev ?t)"
  show ?thesis
  proof (cases "?u = []")
    case True
    then have e: "py_strip s = []" by (simp only: py_strip_def rev.simps)
    have "py_strip [] = []" by (simp add: py_strip_def)
    with e show ?thesis by (simp only:)
  next
    case False
    have t: "?t = rev ?u @ rev (takeWhile is_space (rev ?t))" by (rule rev_split)
    from False have ne: "rev ?u \<noteq> []" by simp
    with t have "hd ?t = hd (rev ?u)" by (metis hd_append2)
    moreover from t ne have "?t \<noteq> []" by (metis append_is_Nil_conv)
    then have "\<not> is_space (hd ?t)" by (rule hd_dropWhile)
    ultimately have "\<not> is_space (hd (rev ?u))" by simp
    with ne have "dropWhile is_space (rev ?u) = rev ?u" by (cases "rev ?u") auto
    then show ?thesis by (simp add: py_strip_def)
  qed
qed

section \<open>Facts about patterns\<close>

text \<open>The definitions that evaluate a search on a literal.\<close>

lemmas rx_defs = cat_def chr_def among_def between_def lit_def opt_def opt_cls_def exactly_def
  many1_def rep_counts_def word_at_def match_at_def finditer_def group0_def group_def digit_def
  sep_def country_def

lemma first_some_Some: "first_some xs f = Some r \<Longrightarrow> \<exists>x\<in>set xs. f x = Some r"
  by (induction xs) (auto split: option.splits)

lemma rx_match_reaches:
  "rx_match U r t i g k = Some res \<Longrightarrow>
     \<exists>j g'. i \<le> j \<and> k j g' = Some res \<and>
       (needs d r \<longrightarrow> (\<exists>n. i \<le> n \<and> n < j \<and> n < length t \<and> d (t ! n)))"
proof (induction r arbitrary: i g k res)
  case (Cls p)
  then have "i < length t" "p (t ! i)" "k (Suc i) g = Some res"
    by (auto split: if_splits)
  then show ?case by (intro exI [of _ "Suc i"] exI [of _ g]) auto
next
  case (Rep lo hi p)
  let ?run = "length (takeWhile p (drop i t))"
  from Rep obtain n where n: "n \<in> set (rep_counts lo hi ?run)" "k (i + n) g = Some res"
    by (auto dest: first_some_Some)
  then have bounds: "lo \<le> n" "n \<le> ?run"
    by (auto simp: rep_counts_def Let_def split: option.splits)
  have "\<exists>m. i \<le> m \<and> m < i + n \<and> m < length t \<and> d (t ! m)" if "0 < lo" "\<forall>c. p c \<longrightarrow> d c"
  proof -
    from that bounds have "takeWhile p (drop i t) \<noteq> []" by auto
    then obtain x xs where dr: "drop i t = x # xs" and px: "p x"
      by (cases "drop i t") (auto split: if_splits)
    then have "i < length t" by (metis drop_eq_Nil leI list.distinct(1))
    moreover from dr have "t ! i = x" by (metis nth_via_drop)
    ultimately show ?thesis using px that bounds by (intro exI [of _ i]) auto
  qed
  with n show ?case by (intro exI [of _ "i + n"] exI [of _ g]) auto
next
  case (Cat a b)
  from Cat.prems have "rx_match U a t i g (\<lambda>j g'. rx_match U b t j g' k) = Some res" by simp
  from Cat.IH(1) [OF this] obtain j1 g1 where
    a: "i \<le> j1" "rx_match U b t j1 g1 k = Some res"
       "needs d a \<longrightarrow> (\<exists>n. i \<le> n \<and> n < j1 \<and> n < length t \<and> d (t ! n))" by blast
  from Cat.IH(2) [OF a(2)] obtain j2 g2 where
    b: "j1 \<le> j2" "k j2 g2 = Some res"
       "needs d b \<longrightarrow> (\<exists>n. j1 \<le> n \<and> n < j2 \<and> n < length t \<and> d (t ! n))" by blast
  have "\<exists>n. i \<le> n \<and> n < j2 \<and> n < length t \<and> d (t ! n)" if "needs d a \<or> needs d b"
    using that a b by (meson le_trans less_le_trans)
  with a b show ?case by (intro exI [of _ j2] exI [of _ g2]) auto
next
  case (Alt a b)
  show ?case
  proof (cases "rx_match U a t i g k")
    case None
    with Alt.prems have "rx_match U b t i g k = Some res" by simp
    from Alt.IH(2) [OF this] show ?thesis by auto
  next
    case (Some r)
    with Alt.prems have "rx_match U a t i g k = Some res" by simp
    from Alt.IH(1) [OF this] show ?thesis by auto
  qed
next
  case (Grp n r)
  from Grp.prems have "rx_match U r t i g (\<lambda>j g'. k j ((n, i, j) # g')) = Some res" by simp
  from Grp.IH [OF this] show ?case by auto
qed (auto split: if_splits)

lemma match_at_without:
  assumes "needs d r" and "\<forall>c\<in>set t. \<not> d c"
  shows "match_at U r t i = None"
proof (cases "match_at U r t i")
  case (Some res)
  then have "rx_match U r t i [] (\<lambda>j g. Some (j, g)) = Some res" by (simp add: match_at_def)
  from rx_match_reaches [OF this, of d] assms show ?thesis by (metis nth_mem)
qed simp

lemma finditer_from_without:
  assumes "needs d r" and "\<forall>c\<in>set t. \<not> d c"
  shows "finditer_from U r t i = []"
proof (induction "Suc (length t) - i" arbitrary: i)
  case 0
  then show ?case by (simp add: finditer_from.simps)
next
  case (Suc n)
  then have "finditer_from U r t (Suc i) = []" by simp
  then show ?case using match_at_without [OF assms]
    by (subst finditer_from.simps) simp
qed

lemma finditer_without: "needs d r \<Longrightarrow> \<forall>c\<in>set t. \<not> d c \<Longrightarrow> finditer U r t = []"
  by (simp add: finditer_def finditer_from_without)

lemma phone_patterns_need_digit: "\<forall>(region, config)\<in>set PHONE_PATTERNS. needs digit (pattern config)"
  by (simp add: PHONE_PATTERNS_def rx_defs char_class_defs str_def)

lemma phone_analyze_without_digit: "\<forall>c\<in>set t. \<not> digit c \<Longrightarrow> phone_analyze U t = []"
  using phone_patterns_need_digit
  by (auto simp: phone_analyze_def finditer_without)

lemma sticky_tickets_without_digit: "\<forall>c\<in>set t. \<not> re_digit U c \<Longrightarrow> sticky_tickets U t = []"
proof -
  assume a: "\<forall>c\<in>set t. \<not> re_digit U c"
  have "needs (re_digit U) (sticky_ticket U)" by (simp add: sticky_ticket_def cat_def exactly_def)
  from finditer_without [OF this a] show ?thesis by (simp add: sticky_tickets_def)
qed

lemma custom_chinese_names_without_cjk:
  "\<forall>c\<in>set t. \<not> (11904 \<le> c \<and> c \<le> 40959) \<Longrightarrow> get_custom_chinese_names U t = []"
proof -
  assume a: "\<forall>c\<in>set t. \<not> (11904 \<le> c \<and> c \<le> 40959)"
  have "needs (\<lambda>c. 11904 \<le> c \<and> c \<le> 40959) chinese_name_pattern"
    by (simp add: chinese_name_pattern_def cat_def)
  from finditer_without [OF this a] show ?thesis by (simp add: get_custom_chinese_names_def)
qed

section \<open>The recognisers\<close>

lemma in_set_map_filter: "y \<in> set (List.map_filter f xs) \<longleftrightarrow> (\<exists>x\<in>set xs. f x = Some y)"
  by (induction xs) (auto split: option.splits)

lemma phone_candidate_Some:
  "phone_candidate t region config m = Some h \<longleftrightarrow>
     h = \<lparr> ph_text = group0 t m, ph_start = m_start m, ph_end = m_end m,
           ph_type = ''PHONE_NUMBER'', ph_score = confidence config, ph_region = region \<rparr>
     \<and> min_length config \<le> length (clean_num (group0 t m))
     \<and> length (clean_num (group0 t m)) \<le> max_length config
     \<and> (\<forall>v. prefix_validator config = Some v \<longrightarrow> v (clean_num (group0 t m)))"
  by (auto simp: phone_candidate_def Let_def split: option.splits)

lemma clean_num_no_separator:
  "c \<in> set (clean_num s) \<Longrightarrow> \<not> is_space c \<and> c \<notin> set (str ''-+()'')"
  by (simp add: clean_num_def)

text \<open>
  Claim C7. A dictionary is in the result of the phone recogniser exactly when it comes from
  a match of the pattern of some region of the table such that, with the separators
  (whitespace, \<open>-\<close>, \<open>+\<close>, \<open>(\<close>, \<open>)\<close>) removed, the matched text has a length within the
  bounds of the region and passes the prefix validator of the region, if it has one. The
  dictionary carries the confidence of that region.
\<close>

theorem phone_analyze_candidates:
  "h \<in> set (phone_analyze U t) \<longleftrightarrow>
     (\<exists>region config m.
        (region, config) \<in> set PHONE_PATTERNS \<and> m \<in> set (finditer U (pattern config) t)
        \<and> h = \<lparr> ph_text = group0 t m, ph_start = m_start m, ph_end = m_end m,
                ph_type = ''PHONE_NUMBER'', ph_score = confidence config, ph_region = region \<rparr>
        \<and> min_length config \<le> length (clean_num (group0 t m))
        \<and> length (clean_num (group0 t m)) \<le> max_length config
        \<and> (\<forall>v. prefix_validator config = Some v \<longrightarrow> v (clean_num (group0 t m)))
        \<and> (\<forall>c\<in>set (clean_num (group0 t m)). \<not> is_space c \<and> c \<notin> set (str ''-+()'')))"
proof -
  have "h \<in> set (phone_analyze U t) \<longleftrightarrow>
      (\<exists>rc\<in>set PHONE_PATTERNS. \<exists>m\<in>set (finditer U (pattern (snd rc)) t).
         phone_candidate t (fst rc) (snd rc) m = Some h)"
    by (simp add: phone_analyze_def in_set_map_filter split_def)
  also have "\<dots> \<longleftrightarrow>
      (\<exists>region config m. (region, config) \<in> set PHONE_PATTERNS
         \<and> m \<in> set (finditer U (pattern config) t)
         \<and> phone_candidate t region config m = Some h)"
    by force
  finally show ?thesis
    unfolding phone_candidate_Some using clean_num_no_separator by blast
qed

text \<open>
  A mainland number with a listed prefix is found by the region \<open>CN\<close> with its confidence
  0.95; no dictionary of that region stands for eleven digits with the prefix \<open>123\<close>,
  which is not listed.
\<close>

theorem phone_analyze_candidates_example:
  "\<lparr> ph_text = str ''13800138000'', ph_start = 4, ph_end = 15, ph_type = ''PHONE_NUMBER'',
      ph_score = 0.95, ph_region = ''CN'' \<rparr> \<in> set (phone_analyze ascii_tables (str ''Tel 13800138000''))
   \<and> \<lparr> ph_text = str ''12345678901'', ph_start = 0, ph_end = 11, ph_type = ''PHONE_NUMBER'',
      ph_score = 0.95, ph_region = ''CN'' \<rparr> \<notin> set (phone_analyze ascii_tables (str ''12345678901''))"
proof -
  let ?U = ascii_tables
  let ?cn = "\<lparr> pattern = cat [NotBehind digit, Cls (chr CHR ''1''), Cls (between CHR ''3'' CHR ''9''),
                 exactly 9 digit, NotAhead digit],
             min_length = 11, max_length = 11,
             prefix_validator = Some cn_prefix_validator, confidence = 0.95 \<rparr>"
  let ?m = "\<lparr> m_start = 4, m_end = 15, m_groups = [] \<rparr>"
  have cfg: "(''CN'', ?cn) \<in> set PHONE_PATTERNS" by (simp add: PHONE_PATTERNS_def)
  have m: "?m \<in> set (finditer ?U (pattern ?cn) (str ''Tel 13800138000''))"
    by (simp add: rx_defs char_class_defs py_str_defs finditer_from.simps)
  have g: "group0 (str ''Tel 13800138000'') ?m = str ''13800138000''"
    by (simp add: group0_def py_str_defs)
  have cl: "clean_num (str ''13800138000'') = str ''13800138000''"
    by (simp add: clean_num_def py_str_defs char_class_defs)
  have pv: "cn_prefix_validator (str ''13800138000'')"
    by (simp add: cn_prefix_validator_def cn_prefixes_def str_def)
  have len: "length (str ''13800138000'') = 11" by (simp add: str_def)
  have sepfree: "\<forall>c\<in>set (str ''13800138000''). \<not> is_space c \<and> c \<notin> set (str ''-+()'')"
    by (simp add: py_str_defs char_class_defs)
  have one: "\<lparr> ph_text = str ''13800138000'', ph_start = 4, ph_end = 15, ph_type = ''PHONE_NUMBER'',
      ph_score = 0.95, ph_region = ''CN'' \<rparr> \<in> set (phone_analyze ?U (str ''Tel 13800138000''))"
    unfolding phone_analyze_candidates
    apply (rule exI [of _ "''CN''"], rule exI [of _ ?cn], rule exI [of _ ?m])
    using cfg m g cl pv sepfree len by simp
  have npv: "\<not> cn_prefix_validator (clean_num (str ''12345678901''))"
    by (simp add: cn_prefix_validator_def cn_prefixes_def clean_num_def str_def char_class_defs)
  have two: "\<lparr> ph_text = str ''12345678901'', ph_start = 0, ph_end = 11, ph_type = ''PHONE_NUMBER'',
      ph_score = 0.95, ph_region = ''CN'' \<rparr> \<notin> set (phone_analyze ?U (str ''12345678901''))"
  proof
    assume "\<lparr> ph_text = str ''12345678901'', ph_start = 0, ph_end = 11, ph_type = ''PHONE_NUMBER'',
      ph_score = 0.95, ph_region = ''CN'' \<rparr> \<in> set (phone_analyze ?U (str ''12345678901''))"
    then obtain region config m where
      c: "(region, config) \<in> set PHONE_PATTERNS"
      and h: "\<lparr> ph_text = str ''12345678901'', ph_start = 0, ph_end = 11, ph_type = ''PHONE_NUMBER'',
          ph_score = 0.95, ph_region = ''CN'' \<rparr>
        = \<lparr> ph_text = group0 (str ''12345678901'') m, ph_start = m_start m, ph_end = m_end m,
            ph_type = ''PHONE_NUMBER'', ph_score = confidence config, ph_region = region \<rparr>"
      and v: "\<forall>v. prefix_validator config = Some v
                \<longrightarrow> v (clean_num (group0 (str ''12345678901'') m))"
      unfolding phone_analyze_candidates by blast
    from h have r: "region = ''CN''" and t: "group0 (str ''12345678901'') m = str ''12345678901''"
      by simp_all
    from c r have "prefix_validator config = Some cn_prefix_validator"
      by (auto simp: PHONE_PATTERNS_def)
    with v t npv show False by simp
  qed
  from one two show ?thesis by blast
qed

lemma detect_names_ouyang:
  "detect_names U (str ''Ouyang Ming'') =
     [\<lparr> nh_text = str ''Ouyang Ming'', nh_start = 0, nh_end = 11, nh_type = ''PERSON'', nh_score = 0.85 \<rparr>,
      \<lparr> nh_text = str ''Ouyang Ming'', nh_start = 0, nh_end = 11, nh_type = ''PERSON'', nh_score = 0.9 \<rparr>]"
proof -
  have f: "finditer U name_pair (str ''Ouyang Ming'')
      = [\<lparr> m_start = 0, m_end = 11, m_groups = [(2, 7, 11), (1, 0, 6)] \<rparr>]"
    by (simp add: name_pair_def rx_defs char_class_defs py_str_defs finditer_from.simps)
  have l: "py_lower U (str ''Ouyang'') = str ''ouyang''"
    by (simp add: py_str_defs char_class_defs)
  have c: "str ''ouyang'' \<in> set compound_surnames"
    by (simp add: compound_surnames_def)
  have b: "str ''ouyang'' \<notin> set blacklist"
    by (simp add: blacklist_def str_def)
  have s: "is_surname U (str ''Ouyang'')"
    using l c b by (simp add: is_surname_def)
  have g1: "group (str ''Ouyang Ming'') \<lparr> m_start = 0, m_end = 11, m_groups = [(2, 7, 11), (1, 0, 6)] \<rparr> 1
      = str ''Ouyang''"
    by (simp add: group_def py_str_defs)
  have g0: "group0 (str ''Ouyang Ming'') \<lparr> m_start = 0, m_end = 11, m_groups = [(2, 7, 11), (1, 0, 6)] \<rparr>
      = str ''Ouyang Ming''"
    by (simp add: group0_def py_str_defs)
  show ?thesis
    using s l c g0 g1 by (simp add: detect_names_def f name_hit_of_def)
qed

text \<open>
  Claim C8. On \<open>Ouyang Ming\<close> the two loops of \<open>detect_names\<close> both fire: the first word
  is a surname that is not blacklisted, and it is a compound surname. The result holds the
  same span twice, once with the score 0.85 and once with 0.9.
\<close>

theorem detect_names_duplicate_span:
  "detect_names U (str ''Ouyang Ming'') =
     [\<lparr> nh_text = str ''Ouyang Ming'', nh_start = 0, nh_end = 11, nh_type = ''PERSON'', nh_score = 0.85 \<rparr>,
      \<lparr> nh_text = str ''Ouyang Ming'', nh_start = 0, nh_end = 11, nh_type = ''PERSON'', nh_score = 0.9 \<rparr>]"
  by (rule detect_names_ouyang)

text \<open>The two results cover the same range, so they overlap.\<close>

theorem detect_names_duplicate_span_overlap:
  "\<exists>a b. detect_names ascii_tables (str ''Ouyang Ming'') = [a, b]
     \<and> nh_start a = nh_start b \<and> nh_end a = nh_end b
     \<and> max (nh_start a) (nh_start b) < min (nh_end a) (nh_end b)
     \<and> nh_score a = 0.85 \<and> nh_score b = 0.9"
  using detect_names_duplicate_span [of ascii_tables] by simp

section \<open>The booking-reference validator\<close>

lemma py_lower_append: "py_lower U (a @ b) = py_lower U a @ py_lower U b"
  by (simp add: py_lower_def)

lemma py_slice_widen:
  assumes "a0 \<le> a" and "b \<le> b0 \<or> length t \<le> b0"
  shows "\<exists>p q. py_slice t a0 b0 = p @ py_slice t a b @ q"
proof -
  have tk: "take b (take b0 t) = take b t"
    using assms(2) by (auto simp: min_def)
  have "take b0 t = take b (take b0 t) @ drop b (take b0 t)"
    by (simp only: append_take_drop_id)
  with tk have split: "take b0 t = take b t @ drop b (take b0 t)" by simp
  have "drop a0 (take b0 t) = take (a - a0) (drop a0 (take b0 t)) @ drop (a - a0) (drop a0 (take b0 t))"
    by (simp only: append_take_drop_id)
  also have "drop (a - a0) (drop a0 (take b0 t)) = drop a (take b0 t)"
    using assms(1) by simp
  also have "drop a (take b0 t) = drop a (take b t @ drop b (take b0 t))"
    using split by simp
  also have "\<dots> = drop a (take b t) @ drop (a - length (take b t)) (drop b (take b0 t))"
    by simp
  finally show ?thesis unfolding py_slice_def by blast
qed

lemma pnr_snippet_holds_literal:
  "\<exists>p q. pnr_snippet U t s en = p @ py_lower U (py_strip (py_slice t s en)) @ q"
proof -
  let ?w = "py_slice t (nat (max 0 (int s - 30))) (min (length t) (en + nat 30))"
  have "\<exists>p q. ?w = p @ py_slice t s en @ q"
    by (rule py_slice_widen) auto
  then obtain p q where w: "?w = p @ py_slice t s en @ q" by blast
  obtain p' q' where "py_slice t s en = p' @ py_strip (py_slice t s en) @ q'"
    using py_strip_part by blast
  with w have "?w = (p @ p') @ py_strip (py_slice t s en) @ (q' @ q)" by simp
  then have "py_lower U ?w = py_lower U (p @ p') @ py_lower U (py_strip (py_slice t s en)) @ py_lower U (q' @ q)"
    by (simp only: py_lower_append)
  then show ?thesis unfolding pnr_snippet_def Let_def by blast
qed

lemma pnr_snippet_eq: "pnr_snippet U t s en = py_lower U (py_slice t (s - 30) (en + 30))"
proof -
  have "nat (max 0 (int s - 30)) = s - 30" by simp
  moreover have "py_slice t a (min (length t) b) = py_slice t a b" for a b
    by (simp add: py_slice_def min_def)
  ultimately show ?thesis by (simp add: pnr_snippet_def)
qed

lemma pnr_literal_letters:
  assumes "pnr_literal e" and "\<not> (py_isalpha U e \<and> \<not> py_isupper U e)"
    and "\<not> (\<exists>c\<in>set e. isdigit_cp U c)"
  shows "py_isalpha U e" and "py_isupper U e"
    and "list_all (\<lambda>c. is_upper_ascii c \<or> c = 304 \<or> c = 8490) e"
proof -
  from assms(1) have ne: "e \<noteq> []" and al: "\<forall>c\<in>set e. is_alnum_ascii c \<or> ascii_partner c"
    by (auto simp: pnr_literal_def list_all_iff)
  have small: "c < 128" if "is_alnum_ascii c" for c
    using that
    by (auto simp: is_alnum_ascii_def is_upper_ascii_def is_lower_ascii_def is_digit_ascii_def)
  have large: "\<not> c < 128" if "ascii_partner c" for c
    using that by (auto simp: ascii_partner_def)
  have letter: "is_upper_ascii c \<or> is_lower_ascii c" if "c \<in> set e" "is_alnum_ascii c" for c
    using assms(3) small that by (auto simp: is_alnum_ascii_def isdigit_cp_def)
  have "isalpha_cp U c" if "c \<in> set e" for c
  proof (cases "is_alnum_ascii c")
    case True
    with letter that small show ?thesis by (simp add: isalpha_cp_def)
  next
    case False
    with al that have "ascii_partner c" by blast
    with large show ?thesis by (simp add: isalpha_cp_def)
  qed
  with ne show alpha: "py_isalpha U e" by (simp add: py_isalpha_def list_all_iff)
  with assms(2) show upper: "py_isupper U e" by simp
  then have nl: "\<not> islower_cp U c" if "c \<in> set e" for c
    using that by (auto simp: py_isupper_def list_ex_iff)
  have "is_upper_ascii c \<or> c = 304 \<or> c = 8490" if "c \<in> set e" for c
  proof (cases "is_alnum_ascii c")
    case True
    with letter that small nl [OF that] show ?thesis by (auto simp: islower_cp_def)
  next
    case False
    with al that have p: "ascii_partner c" by blast
    with large nl [OF that] have "\<not> (c = 305 \<or> c = 383)" by (simp add: islower_cp_def)
    with p show ?thesis by (auto simp: ascii_partner_def)
  qed
  then show "list_all (\<lambda>c. is_upper_ascii c \<or> c = 304 \<or> c = 8490) e"
    by (simp add: list_all_iff)
qed

text \<open>
  Claim C4. \<open>is_valid_pnr\<close> decides in four steps. It rejects a literal whose uppercase
  form is in the blacklist; otherwise it rejects a literal that is alphabetic and not
  uppercase; otherwise it accepts a literal that contains a digit; otherwise it accepts
  exactly when a context keyword occurs in the lowercased window
  \<open>text[max(0, start - 30) : end + 30]\<close>. A booking-reference literal that reaches the
  last step is alphabetic and uppercase, as \<open>str.isalpha\<close> and \<open>str.isupper\<close> say it:
  each of its characters is an uppercase ASCII letter, U+0130 or U+212A.
\<close>

theorem is_valid_pnr_decision:
  "is_valid_pnr U t e s en =
     (if py_upper U e \<in> set pnr_blacklist then False
      else if py_isalpha U e \<and> \<not> py_isupper U e then False
      else if (\<exists>c\<in>set e. isdigit_cp U c) then True
      else (\<exists>k\<in>set pnr_context_keywords.
              \<exists>p q. py_lower U (py_slice t (s - 30) (en + 30)) = p @ k @ q))
   \<and> (pnr_literal e \<and> \<not> (py_isalpha U e \<and> \<not> py_isupper U e) \<and> \<not> (\<exists>c\<in>set e. isdigit_cp U c)
        \<longrightarrow> py_isalpha U e \<and> py_isupper U e
            \<and> list_all (\<lambda>c. is_upper_ascii c \<or> c = 304 \<or> c = 8490) e)"
proof
  show "is_valid_pnr U t e s en =
     (if py_upper U e \<in> set pnr_blacklist then False
      else if py_isalpha U e \<and> \<not> py_isupper U e then False
      else if (\<exists>c\<in>set e. isdigit_cp U c) then True
      else (\<exists>k\<in>set pnr_context_keywords.
              \<exists>p q. py_lower U (py_slice t (s - 30) (en + 30)) = p @ k @ q))"
    by (simp add: is_valid_pnr_def list_ex_iff py_in_iff pnr_snippet_eq)
next
  show "pnr_literal e \<and> \<not> (py_isalpha U e \<and> \<not> py_isupper U e) \<and> \<not> (\<exists>c\<in>set e. isdigit_cp U c)
        \<longrightarrow> py_isalpha U e \<and> py_isupper U e
            \<and> list_all (\<lambda>c. is_upper_ascii c \<or> c = 304 \<or> c = 8490) e"
    using pnr_literal_letters by blast
qed

text \<open>
  Claim C9. The window of \<open>is_valid_pnr\<close> contains the candidate itself. So a candidate
  that is alphabetic, uppercase and not blacklisted, and whose own lowercase form
  contains a context keyword, is accepted whatever the text around it is. The candidate
  is passed as \<open>redact\<close> passes it: the stripped text between its offsets.
\<close>

theorem pnr_keyword_inside_literal:
  assumes "e = py_strip (py_slice t s en)"
    and "py_upper U e \<notin> set pnr_blacklist"
    and "py_isalpha U e" and "py_isupper U e"
    and "k \<in> set pnr_context_keywords" and "py_in k (py_lower U e)"
  shows "is_valid_pnr U t e s en"
proof -
  obtain p q where w: "pnr_snippet U t s en = p @ py_lower U e @ q"
    using pnr_snippet_holds_literal assms(1) by blast
  from assms(6) obtain p' q' where "py_lower U e = p' @ k @ q'"
    unfolding py_in_iff by blast
  with w have "pnr_snippet U t s en = (p @ p') @ k @ (q' @ q)" by simp
  then have "py_in k (pnr_snippet U t s en)" unfolding py_in_iff by blast
  with assms(5) have "list_ex (\<lambda>k. py_in k (pnr_snippet U t s en)) pnr_context_keywords"
    unfolding list_ex_iff by blast
  with assms(2,3,4) show ?thesis by (simp add: is_valid_pnr_def)
qed


lemma keyword_in_snippet:
  "(\<exists>k\<in>set pnr_context_keywords. \<exists>p q. py_lower U (py_slice t (s - 30) (en + 30)) = p @ k @ q)
     = list_ex (\<lambda>k. py_in k (pnr_snippet U t s en)) pnr_context_keywords"
  by (simp add: list_ex_iff py_in_iff pnr_snippet_eq)

text \<open>
  The decision on literals of the tests: a keyword in the window, no keyword, a
  blacklisted word, a mixed-case word and a literal with digits. The last literal is
  \<open>ABCD\<close> followed by the Kelvin sign, which the pattern takes for a \<open>K\<close>: it reaches the
  last step, is alphabetic and uppercase, and is accepted after \<open>ref\<close>.
\<close>

theorem is_valid_pnr_decision_examples:
  "is_valid_pnr ascii_tables (str ''Booking ref ABCDEF.'') (str ''ABCDEF'') 12 18
   \<and> py_isalpha ascii_tables (str ''ABCDEF'') \<and> py_isupper ascii_tables (str ''ABCDEF'')
   \<and> \<not> is_valid_pnr ascii_tables (str ''Is ABCDEF a code?'') (str ''ABCDEF'') 3 9
   \<and> \<not> is_valid_pnr ascii_tables (str ''FLIGHT delayed'') (str ''FLIGHT'') 0 6
   \<and> \<not> is_valid_pnr ascii_tables (str ''Booking now'') (str ''Booking'') 0 7
   \<and> is_valid_pnr ascii_tables (str ''My PNR is X9Y8Z7.'') (str ''X9Y8Z7'') 10 16
   \<and> is_valid_pnr ascii_tables (str ''ref '' @ str ''ABCD'' @ [8490]) (str ''ABCD'' @ [8490]) 4 9
   \<and> list_all (\<lambda>c. is_upper_ascii c \<or> c = 304 \<or> c = 8490) (str ''ABCD'' @ [8490])"
proof -
  let ?U = ascii_tables
  let ?e = "str ''ABCDEF''"
  have nb: "py_upper ?U ?e \<notin> set pnr_blacklist"
    by (simp add: pnr_blacklist_def py_str_defs char_class_defs)
  have up: "py_isalpha ?U ?e" "py_isupper ?U ?e"
    by (simp_all add: py_str_defs char_class_defs)
  have nd: "\<not> (\<exists>c\<in>set ?e. isdigit_cp ?U c)"
    by (simp add: py_str_defs char_class_defs)
  have k1: "list_ex (\<lambda>k. py_in k (pnr_snippet ?U (str ''Booking ref ABCDEF.'') 12 18)) pnr_context_keywords"
    by (simp add: pnr_snippet_def pnr_context_keywords_def py_str_defs char_class_defs)
  have k2: "\<not> list_ex (\<lambda>k. py_in k (pnr_snippet ?U (str ''Is ABCDEF a code?'') 3 9)) pnr_context_keywords"
    by (simp add: pnr_snippet_def pnr_context_keywords_def py_str_defs char_class_defs)
  have c1: "is_valid_pnr ?U (str ''Booking ref ABCDEF.'') ?e 12 18"
    using is_valid_pnr_decision [of ?U "str ''Booking ref ABCDEF.''" ?e 12 18] nb up nd k1
    unfolding keyword_in_snippet by simp
  have c3: "\<not> is_valid_pnr ?U (str ''Is ABCDEF a code?'') ?e 3 9"
    using is_valid_pnr_decision [of ?U "str ''Is ABCDEF a code?''" ?e 3 9] nb up nd k2
    unfolding keyword_in_snippet by simp
  have "py_upper ?U (str ''FLIGHT'') \<in> set pnr_blacklist"
    by (simp add: pnr_blacklist_def py_str_defs char_class_defs)
  then have c4: "\<not> is_valid_pnr ?U (str ''FLIGHT delayed'') (str ''FLIGHT'') 0 6"
    using is_valid_pnr_decision [of ?U "str ''FLIGHT delayed''" "str ''FLIGHT''" 0 6] by simp
  have "py_upper ?U (str ''Booking'') \<notin> set pnr_blacklist"
    "py_isalpha ?U (str ''Booking'')" "\<not> py_isupper ?U (str ''Booking'')"
    by (simp_all add: pnr_blacklist_def py_str_defs char_class_defs)
  then have c5: "\<not> is_valid_pnr ?U (str ''Booking now'') (str ''Booking'') 0 7"
    using is_valid_pnr_decision [of ?U "str ''Booking now''" "str ''Booking''" 0 7] by simp
  have "py_upper ?U (str ''X9Y8Z7'') \<notin> set pnr_blacklist"
    "\<not> py_isalpha ?U (str ''X9Y8Z7'')" "\<exists>c\<in>set (str ''X9Y8Z7''). isdigit_cp ?U c"
    by (simp_all add: pnr_blacklist_def py_str_defs char_class_defs)
  then have c6: "is_valid_pnr ?U (str ''My PNR is X9Y8Z7.'') (str ''X9Y8Z7'') 10 16"
    using is_valid_pnr_decision [of ?U "str ''My PNR is X9Y8Z7.''" "str ''X9Y8Z7''" 10 16] by simp
  let ?k = "str ''ABCD'' @ [8490]"
  have knb: "py_upper ?U ?k \<notin> set pnr_blacklist"
    by (simp add: pnr_blacklist_def py_str_defs char_class_defs)
  have kup: "\<not> (py_isalpha ?U ?k \<and> \<not> py_isupper ?U ?k)"
    by (simp add: py_str_defs char_class_defs)
  have knd: "\<not> (\<exists>c\<in>set ?k. isdigit_cp ?U c)"
    by (simp add: py_str_defs char_class_defs)
  have klit: "pnr_literal ?k"
    by (simp add: pnr_literal_def py_str_defs char_class_defs)
  have kk: "list_ex (\<lambda>k. py_in k (pnr_snippet ?U (str ''ref '' @ ?k) 4 9)) pnr_context_keywords"
    by (simp add: pnr_snippet_def pnr_context_keywords_def py_str_defs char_class_defs)
  have c7: "is_valid_pnr ?U (str ''ref '' @ ?k) ?k 4 9"
    and c8: "list_all (\<lambda>c. is_upper_ascii c \<or> c = 304 \<or> c = 8490) ?k"
    using is_valid_pnr_decision [of ?U "str ''ref '' @ ?k" ?k 4 9] knb kup knd klit kk
    unfolding keyword_in_snippet by simp_all
  from c1 up c3 c4 c5 c6 c7 c8 show ?thesis by blast
qed

text \<open>
  \<open>PREFER\<close> contains \<open>ref\<close>: it is accepted inside a sentence without any booking
  vocabulary, and standing alone.
\<close>

theorem pnr_keyword_inside_literal_example:
  "is_valid_pnr ascii_tables (str ''I PREFER tea'') (str ''PREFER'') 2 8
   \<and> is_valid_pnr ascii_tables (str ''PREFER'') (str ''PREFER'') 0 6"
proof -
  let ?U = ascii_tables
  let ?e = "str ''PREFER''"
  have nb: "py_upper ?U ?e \<notin> set pnr_blacklist"
    by (simp add: pnr_blacklist_def py_str_defs char_class_defs)
  have up: "py_isalpha ?U ?e" "py_isupper ?U ?e"
    by (simp_all add: py_str_defs char_class_defs)
  have kw: "str ''ref'' \<in> set pnr_context_keywords"
    by (simp add: pnr_context_keywords_def)
  have inn: "py_in (str ''ref'') (py_lower ?U ?e)"
    by (simp add: py_str_defs char_class_defs)
  have e1: "?e = py_strip (py_slice (str ''I PREFER tea'') 2 8)"
    by (simp add: py_str_defs char_class_defs)
  have e2: "?e = py_strip (py_slice (str ''PREFER'') 0 6)"
    by (simp add: py_str_defs char_class_defs)
  from pnr_keyword_inside_literal [OF e1 nb up kw inn]
       pnr_keyword_inside_literal [OF e2 nb up kw inn]
  show ?thesis by blast
qed

section \<open>The date-of-birth classifier\<close>

lemmas date_defs = parse_date_def or_else_def dob_body_def is_likely_dob_def dob_year_def
  strptime_digits_def make_date_def days_in_month_def digits_value_def

lemma dob_year_iff: "dob_year cy y \<longleftrightarrow> 1900 < y \<and> y < cy - 2"
  by (auto simp: dob_year_def)

text \<open>
  Claim C3, as the code has it. For a string of eight digits the strict parses are tried in
  the order month-day-year, day-month-year, year-month-day; a \<open>ValueError\<close> moves on to
  the next and the first date that exists is taken; when none exists the text is not
  parsed at all (the lenient parser is not asked). For every other string the lenient
  parser is asked, after the whitespace is collapsed and stripped. A parsed date is a date
  of birth exactly when its year \<open>y\<close> satisfies \<open>1900 < y\<close> and \<open>y < current year - 2\<close>:
  the year is more than two years back. Text that is not parsed is not a date of birth.
\<close>

theorem is_likely_dob_classifies:
  "(length s = 8 \<and> list_all (re_digit U) s \<longrightarrow>
      (\<forall>dt. strptime R s ''%m%d%Y'' = Inr dt \<longrightarrow> parse_date R U s = Inr (Some dt))
    \<and> (\<forall>dt. strptime R s ''%m%d%Y'' = Inl ValueError \<and> strptime R s ''%d%m%Y'' = Inr dt
          \<longrightarrow> parse_date R U s = Inr (Some dt))
    \<and> (\<forall>dt. strptime R s ''%m%d%Y'' = Inl ValueError \<and> strptime R s ''%d%m%Y'' = Inl ValueError
            \<and> strptime R s ''%Y%m%d'' = Inr dt
          \<longrightarrow> parse_date R U s = Inr (Some dt))
    \<and> (strptime R s ''%m%d%Y'' = Inl ValueError \<and> strptime R s ''%d%m%Y'' = Inl ValueError
          \<and> strptime R s ''%Y%m%d'' = Inl ValueError
          \<longrightarrow> parse_date R U s = Inr None))
   \<and> (\<not> (length s = 8 \<and> list_all (re_digit U) s) \<longrightarrow>
        parse_date R U s = map_sum id Some (parser_parse R (py_strip (collapse_ws s))))
   \<and> (\<forall>dt. parse_date R U s = Inr (Some dt) \<longrightarrow>
        is_likely_dob R U s = Inr (1900 < year dt \<and> year dt < now_year R - 2))
   \<and> (parse_date R U s = Inr None \<longrightarrow> is_likely_dob R U s = Inr False)
   \<and> (\<forall>e. parse_date R U s = Inl e \<longrightarrow> is_likely_dob R U s = Inr False)"
  by (simp add: parse_date_def or_else_def dob_body_def is_likely_dob_def dob_year_iff)

text \<open>
  With the current year 2026: \<open>13011990\<close> is no month-day-year date, so it is read as
  13 January 1990, a date of birth; \<open>99999999\<close> is no date in any order; \<open>tomorrow\<close> is
  refused by the lenient parser of this run.
\<close>

theorem is_likely_dob_classifies_examples:
  "parse_date quiet_runtime ascii_tables (str ''13011990'')
       = Inr (Some \<lparr> year = 1990, month = 1, day = 13 \<rparr>)
   \<and> is_likely_dob quiet_runtime ascii_tables (str ''13011990'') = Inr True
   \<and> is_likely_dob quiet_runtime ascii_tables (str ''99999999'') = Inr False
   \<and> is_likely_dob quiet_runtime ascii_tables (str ''tomorrow'') = Inr False"
proof -
  let ?R = quiet_runtime and ?U = ascii_tables
  have e1: "length (str ''13011990'') = 8 \<and> list_all (re_digit ?U) (str ''13011990'')"
    by (simp add: str_def char_class_defs)
  have a1: "strptime ?R (str ''13011990'') ''%m%d%Y'' = Inl ValueError"
    by (simp add: quiet_runtime_def date_defs str_def char_class_defs)
  have b1: "strptime ?R (str ''13011990'') ''%d%m%Y'' = Inr \<lparr> year = 1990, month = 1, day = 13 \<rparr>"
    by (simp add: quiet_runtime_def date_defs str_def char_class_defs)
  from is_likely_dob_classifies [of "str ''13011990''" ?U ?R] e1 a1 b1
  have p1: "parse_date ?R ?U (str ''13011990'') = Inr (Some \<lparr> year = 1990, month = 1, day = 13 \<rparr>)"
    by blast
  have ny: "now_year ?R = 2026" by (simp add: quiet_runtime_def)
  from is_likely_dob_classifies [of "str ''13011990''" ?U ?R] p1
  have "is_likely_dob ?R ?U (str ''13011990'')
      = Inr (1900 < year \<lparr> year = 1990, month = 1, day = 13 \<rparr>
             \<and> year \<lparr> year = 1990, month = 1, day = 13 \<rparr> < now_year ?R - 2)"
    by blast
  with ny have d1: "is_likely_dob ?R ?U (str ''13011990'') = Inr True" by simp
  have e3: "length (str ''99999999'') = 8 \<and> list_all (re_digit ?U) (str ''99999999'')"
    by (simp add: str_def char_class_defs)
  have f3: "strptime ?R (str ''99999999'') ''%m%d%Y'' = Inl ValueError"
    "strptime ?R (str ''99999999'') ''%d%m%Y'' = Inl ValueError"
    "strptime ?R (str ''99999999'') ''%Y%m%d'' = Inl ValueError"
    by (simp_all add: quiet_runtime_def date_defs str_def char_class_defs)
  from is_likely_dob_classifies [of "str ''99999999''" ?U ?R] e3 f3
  have "parse_date ?R ?U (str ''99999999'') = Inr None" by blast
  with is_likely_dob_classifies [of "str ''99999999''" ?U ?R]
  have d3: "is_likely_dob ?R ?U (str ''99999999'') = Inr False" by blast
  have e4: "\<not> (length (str ''tomorrow'') = 8 \<and> list_all (re_digit ?U) (str ''tomorrow''))"
    by (simp add: str_def char_class_defs)
  have "parser_parse ?R (py_strip (collapse_ws (str ''tomorrow''))) = Inl ValueError"
    by (simp add: quiet_runtime_def)
  with is_likely_dob_classifies [of "str ''tomorrow''" ?U ?R] e4
  have "parse_date ?R ?U (str ''tomorrow'') = Inl ValueError" by simp
  with is_likely_dob_classifies [of "str ''tomorrow''" ?U ?R]
  have d4: "is_likely_dob ?R ?U (str ''tomorrow'') = Inr False" by blast
  from p1 d1 d3 d4 show ?thesis by blast
qed

text \<open>
  The claim as it is worded fails for a year exactly two years back: in 2026 the text
  \<open>01012024\<close> is parsed as 1 January 2024, whose year is above 1900 and at least two years
  before the current year, and it is not a date of birth.
\<close>

theorem dob_two_years_before_not_dob:
  "parse_date quiet_runtime ascii_tables (str ''01012024'')
       = Inr (Some \<lparr> year = 2024, month = 1, day = 1 \<rparr>)
   \<and> now_year quiet_runtime = 2026
   \<and> 1900 < year \<lparr> year = 2024, month = 1, day = 1 \<rparr>
   \<and> year \<lparr> year = 2024, month = 1, day = 1 \<rparr> \<le> now_year quiet_runtime - 2
   \<and> is_likely_dob quiet_runtime ascii_tables (str ''01012024'') = Inr False"
  by (simp add: quiet_runtime_def date_defs str_def char_class_defs)

text \<open>
  Claim C10. \<open>is_likely_dob\<close> returns a boolean for every string and every behaviour of
  its collaborators. An exception raised inside it gives \<open>False\<close>: in particular a failure
  of the lenient parser, and strict parses that all fail, with whatever exception.
\<close>

theorem is_likely_dob_total:
  "(\<exists>b. is_likely_dob R U s = Inr b)
   \<and> (\<forall>e. dob_body R U s = Inl e \<longrightarrow> is_likely_dob R U s = Inr False)
   \<and> (\<forall>e. \<not> (length s = 8 \<and> list_all (re_digit U) s)
          \<and> parser_parse R (py_strip (collapse_ws s)) = Inl e
        \<longrightarrow> is_likely_dob R U s = Inr False)
   \<and> (length s = 8 \<and> list_all (re_digit U) s \<and> (\<forall>fmt. \<exists>e. strptime R s fmt = Inl e)
        \<longrightarrow> is_likely_dob R U s = Inr False)"
proof (intro conjI allI impI)
  show "\<exists>b. is_likely_dob R U s = Inr b"
    by (cases "dob_body R U s") (auto simp: is_likely_dob_def)
next
  fix e assume "dob_body R U s = Inl e"
  then show "is_likely_dob R U s = Inr False" by (simp add: is_likely_dob_def)
next
  fix e assume "\<not> (length s = 8 \<and> list_all (re_digit U) s)
          \<and> parser_parse R (py_strip (collapse_ws s)) = Inl e"
  then have ne: "\<not> (length s = 8 \<and> list_all (re_digit U) s)"
    and pe: "parser_parse R (py_strip (collapse_ws s)) = Inl e" by blast+
  from ne have "parse_date R U s = map_sum id Some (parser_parse R (py_strip (collapse_ws s)))"
    unfolding parse_date_def by (simp only: if_not_P Let_def if_False)
  with pe show "is_likely_dob R U s = Inr False"
    by (simp add: is_likely_dob_def dob_body_def)
next
  assume a: "length s = 8 \<and> list_all (re_digit U) s \<and> (\<forall>fmt. \<exists>e. strptime R s fmt = Inl e)"
  then obtain e1 e2 e3 where
    "strptime R s ''%m%d%Y'' = Inl e1" "strptime R s ''%d%m%Y'' = Inl e2"
    "strptime R s ''%Y%m%d'' = Inl e3" by blast
  moreover from a have "parse_date R U s =
      or_else (map_sum id Some (strptime R s ''%m%d%Y''))
        (or_else (map_sum id Some (strptime R s ''%d%m%Y''))
           (or_else (map_sum id Some (strptime R s ''%Y%m%d'')) (Inr None)))"
    unfolding parse_date_def by (simp only: if_P if_True)
  ultimately show "is_likely_dob R U s = Inr False"
    by (simp add: is_likely_dob_def dob_body_def or_else_def)
qed

text \<open>
  A lenient parser that raises, and a \<open>strptime\<close> that raises something other than
  \<open>ValueError\<close>.
\<close>

theorem is_likely_dob_total_examples:
  "is_likely_dob quiet_runtime ascii_tables (str ''next week'') = Inr False
   \<and> is_likely_dob (quiet_runtime \<lparr> strptime := (\<lambda>s fmt. Inl (OtherException ''TypeError'')) \<rparr>)
        ascii_tables (str ''01011990'') = Inr False
   \<and> (\<exists>b. is_likely_dob quiet_runtime ascii_tables (str ''01011990'') = Inr b)"
proof -
  let ?U = ascii_tables
  let ?R = "quiet_runtime \<lparr> strptime := (\<lambda>s fmt. Inl (OtherException ''TypeError'')) \<rparr>"
  have "\<not> (length (str ''next week'') = 8 \<and> list_all (re_digit ?U) (str ''next week''))
      \<and> parser_parse quiet_runtime (py_strip (collapse_ws (str ''next week''))) = Inl ValueError"
    by (simp add: str_def quiet_runtime_def)
  with is_likely_dob_total [of quiet_runtime ?U "str ''next week''"]
  have a: "is_likely_dob quiet_runtime ?U (str ''next week'') = Inr False" by blast
  have "length (str ''01011990'') = 8 \<and> list_all (re_digit ?U) (str ''01011990'')
      \<and> (\<forall>fmt. \<exists>e. strptime ?R (str ''01011990'') fmt = Inl e)"
    by (simp add: str_def char_class_defs)
  with is_likely_dob_total [of ?R ?U "str ''01011990''"]
  have b: "is_likely_dob ?R ?U (str ''01011990'') = Inr False" by blast
  from is_likely_dob_total [of quiet_runtime ?U "str ''01011990''"]
  have c: "\<exists>b. is_likely_dob quiet_runtime ?U (str ''01011990'') = Inr b" by blast
  from a b c show ?thesis by blast
qed

section \<open>Idempotence of the normaliser\<close>

lemma is_space_32: "is_space 32" by (simp add: is_space_def)
lemma alnum_not_space: "is_alnum_ascii c \<Longrightarrow> \<not> is_space c"
  by (auto simp: is_alnum_ascii_def is_upper_ascii_def is_lower_ascii_def is_digit_ascii_def is_space_def)
lemma not_alnum_32: "\<not> is_alnum_ascii 32"
  by (simp add: is_alnum_ascii_def is_upper_ascii_def is_lower_ascii_def is_digit_ascii_def)
lemma not_alnum_91: "\<not> is_alnum_ascii 91"
  by (simp add: is_alnum_ascii_def is_upper_ascii_def is_lower_ascii_def is_digit_ascii_def)
lemma not_alnum_93: "\<not> is_alnum_ascii 93"
  by (simp add: is_alnum_ascii_def is_upper_ascii_def is_lower_ascii_def is_digit_ascii_def)
lemma not_space_91: "\<not> is_space 91" by (simp add: is_space_def)
lemma not_space_93: "\<not> is_space 93" by (simp add: is_space_def)

lemma hd_space_before_open: "hd (space_before_open (x # xs)) = x"
  by (cases xs) auto

lemma space_before_open_Nil: "(space_before_open xs = []) = (xs = [])"
  by (induction xs rule: space_before_open.induct) auto

lemma open_ok_after: "successively tag_open_ok (space_before_open s)"
proof (induction s rule: space_before_open.induct)
  case (1 a b xs)
  show ?case
  proof (cases "is_alnum_ascii a \<and> b = 91")
    case True
    with 1 show ?thesis
      by (cases "space_before_open xs") (auto simp: tag_open_ok_def not_alnum_32 not_alnum_91)
  next
    case False
    with 1 have "successively tag_open_ok (space_before_open (b # xs))" by simp
    moreover have "hd (space_before_open (b # xs)) = b" by (rule hd_space_before_open)
    moreover have "space_before_open (b # xs) \<noteq> []" by (simp add: space_before_open_Nil)
    ultimately show ?thesis using False
      by (auto simp: successively_Cons tag_open_ok_def)
  qed
qed simp_all

lemma open_ok_fix: "successively tag_open_ok s \<Longrightarrow> space_before_open s = s"
  by (induction s rule: space_before_open.induct) (auto simp: tag_open_ok_def)


lemma hd_space_after_close: "hd (space_after_close (x # xs)) = x"
  by (cases xs) auto

lemma space_after_close_Nil: "(space_after_close xs = []) = (xs = [])"
  by (induction xs rule: space_after_close.induct) auto

lemma close_ok_after: "successively tag_close_ok (space_after_close s)"
proof (induction s rule: space_after_close.induct)
  case (1 a b xs)
  show ?case
  proof (cases "a = 93 \<and> is_alnum_ascii b")
    case True
    with 1 show ?thesis
      by (cases "space_after_close xs") (auto simp: tag_close_ok_def not_alnum_32 not_alnum_93)
  next
    case False
    with 1 have "successively tag_close_ok (space_after_close (b # xs))" by simp
    moreover have "hd (space_after_close (b # xs)) = b" by (rule hd_space_after_close)
    moreover have "space_after_close (b # xs) \<noteq> []" by (simp add: space_after_close_Nil)
    ultimately show ?thesis using False
      by (auto simp: successively_Cons tag_close_ok_def)
  qed
qed simp_all

lemma close_ok_fix: "successively tag_close_ok s \<Longrightarrow> space_after_close s = s"
  by (induction s rule: space_after_close.induct) (auto simp: tag_close_ok_def)

lemma open_ok_space_after_close:
  "successively tag_open_ok s \<Longrightarrow> successively tag_open_ok (space_after_close s)"
proof (induction s rule: space_after_close.induct)
  case (1 a b xs)
  show ?case
  proof (cases "a = 93 \<and> is_alnum_ascii b")
    case True
    from "1.prems" have rest: "successively tag_open_ok xs" and
      bx: "xs \<noteq> [] \<Longrightarrow> tag_open_ok b (hd xs)"
      by (auto simp: successively_Cons)
    from True rest "1.IH"(1) have ih: "successively tag_open_ok (space_after_close xs)" by simp
    have "tag_open_ok a 32" "tag_open_ok 32 b"
      using True by (auto simp: tag_open_ok_def not_alnum_32 not_alnum_91)
    have "successively tag_open_ok (b # space_after_close xs)"
    proof (cases xs)
      case Nil
      then show ?thesis by simp
    next
      case (Cons y ys)
      with bx have "tag_open_ok b y" by simp
      moreover from Cons have "hd (space_after_close xs) = y" by (simp add: hd_space_after_close)
      moreover from Cons have "space_after_close xs \<noteq> []" by (simp add: space_after_close_Nil)
      ultimately show ?thesis using ih by (simp add: successively_Cons)
    qed
    with True \<open>tag_open_ok a 32\<close> \<open>tag_open_ok 32 b\<close> show ?thesis by simp
  next
    case False
    from "1.prems" have rest: "successively tag_open_ok (b # xs)" and ab: "tag_open_ok a b"
      by auto
    from False rest "1.IH"(2) have "successively tag_open_ok (space_after_close (b # xs))" by simp
    moreover have "hd (space_after_close (b # xs)) = b" by (rule hd_space_after_close)
    ultimately show ?thesis using False ab
      by (auto simp: successively_Cons)
  qed
qed simp_all

lemma collapse_ws_Nil: "(collapse_ws xs = []) = (xs = [])"
  by (cases xs) auto

lemma hd_collapse_ws: "hd (collapse_ws (x # xs)) = (if is_space x then 32 else x)"
  by simp

lemma successively_dropWhile: "successively R xs \<Longrightarrow> successively R (dropWhile P xs)"
proof -
  assume "successively R xs"
  then have "successively R (takeWhile P xs @ dropWhile P xs)" by simp
  then show ?thesis unfolding successively_append_iff by blast
qed

lemma collapse_ws_successively:
  assumes "successively (\<lambda>a b. is_space a \<or> is_space b \<or> R a b) s"
    and "\<And>a. \<not> is_space a \<Longrightarrow> R a 32"
    and "\<And>b. \<not> is_space b \<Longrightarrow> R 32 b"
  shows "successively R (collapse_ws s)"
  using assms(1)
proof (induction s rule: collapse_ws.induct)
  case 1
  show ?case by simp
next
  case (2 c cs)
  let ?Q = "\<lambda>a b. is_space a \<or> is_space b \<or> R a b"
  from "2.prems" have tl: "successively ?Q cs" by (auto simp: successively_Cons)
  show ?case
  proof (cases "is_space c")
    case True
    let ?d = "dropWhile is_space cs"
    from tl have "successively ?Q ?d" by (rule successively_dropWhile)
    with True "2.IH"(1) have ih: "successively R (collapse_ws ?d)" by simp
    have "?d \<noteq> [] \<Longrightarrow> R 32 (hd (collapse_ws ?d))"
    proof -
      assume ne: "?d \<noteq> []"
      then have ns: "\<not> is_space (hd ?d)" by (rule hd_dropWhile)
      from ne obtain y ys where d: "?d = y # ys" by (cases ?d) auto
      with ns have "hd (collapse_ws ?d) = y" by simp
      with ns d show ?thesis using assms(3) by simp
    qed
    with True ih show ?thesis
      by (auto simp: successively_Cons collapse_ws_Nil)
  next
    case False
    with tl "2.IH"(2) have ih: "successively R (collapse_ws cs)" by simp
    have "cs \<noteq> [] \<Longrightarrow> R c (hd (collapse_ws cs))"
    proof -
      assume "cs \<noteq> []"
      then obtain y ys where cs: "cs = y # ys" by (cases cs) auto
      show ?thesis
      proof (cases "is_space y")
        case True
        with cs False show ?thesis using assms(2) by simp
      next
        case ny: False
        from "2.prems" cs have "?Q c y" by simp
        with False ny cs show ?thesis by simp
      qed
    qed
    with False ih show ?thesis
      by (auto simp: successively_Cons collapse_ws_Nil)
  qed
qed

lemma collapse_ws_spaces: "x \<in> set (collapse_ws s) \<Longrightarrow> is_space x \<Longrightarrow> x = 32"
proof (induction s rule: collapse_ws.induct)
  case 1
  then show ?case by simp
next
  case (2 c cs)
  then show ?case by (cases "is_space c") auto
qed

lemma collapse_ws_fix:
  "successively ws_ok s \<Longrightarrow> (\<And>x. x \<in> set s \<Longrightarrow> is_space x \<Longrightarrow> x = 32) \<Longrightarrow> collapse_ws s = s"
proof (induction s rule: collapse_ws.induct)
  case 1
  show ?case by simp
next
  case (2 c cs)
  from "2.prems"(1) have tl: "successively ws_ok cs" by (auto simp: successively_Cons)
  show ?case
  proof (cases "is_space c")
    case True
    with "2.prems"(2) have c32: "c = 32" by simp
    have dw: "dropWhile is_space cs = cs"
    proof (cases cs)
      case Nil
      then show ?thesis by simp
    next
      case (Cons y ys)
      with "2.prems"(1) True have "\<not> is_space y" by (simp add: ws_ok_def)
      with Cons show ?thesis by simp
    qed
    from True dw tl "2.IH"(1) "2.prems"(2) have "collapse_ws cs = cs" by simp
    with True c32 dw show ?thesis by simp
  next
    case False
    with tl "2.IH"(2) "2.prems"(2) have "collapse_ws cs = cs" by simp
    with False show ?thesis by simp
  qed
qed

text \<open>
  Claim C6. The output normaliser is idempotent: normalising an already normalised string
  changes nothing. \<^const>\<open>normalize_output\<close> puts one space between an ASCII letter
  or digit and a following \<open>[\<close>, one space between \<open>]\<close> and a following ASCII letter or
  digit, replaces every run of whitespace by one space, and strips both ends.
\<close>

theorem normalize_output_idempotent: "normalize_output (normalize_output s) = normalize_output s"
proof -
  let ?m = "collapse_ws (space_after_close (space_before_open s))"
  let ?t = "normalize_output s"
  have t: "?t = py_strip ?m" by (simp add: normalize_output_def)
  have o1: "successively tag_open_ok (space_after_close (space_before_open s))"
    by (rule open_ok_space_after_close) (rule open_ok_after)
  have c1: "successively tag_close_ok (space_after_close (space_before_open s))"
    by (rule close_ok_after)
  have om: "successively tag_open_ok ?m"
    by (rule collapse_ws_successively)
       (auto intro: successively_mono [OF o1] simp: tag_open_ok_def not_alnum_32 not_space_91)
  have cm: "successively tag_close_ok ?m"
    by (rule collapse_ws_successively)
       (auto intro: successively_mono [OF c1] simp: tag_close_ok_def not_alnum_32 not_space_93)
  have "successively (\<lambda>a b. is_space a \<or> is_space b \<or> ws_ok a b) (space_after_close (space_before_open s))"
    by (rule successively_mono [OF c1]) (auto simp: ws_ok_def)
  then have wm: "successively ws_ok ?m"
    by (rule collapse_ws_successively) (auto simp: ws_ok_def)
  from om have ot: "successively tag_open_ok ?t" unfolding t by (rule py_strip_successively)
  from cm have ct: "successively tag_close_ok ?t" unfolding t by (rule py_strip_successively)
  from wm have wt: "successively ws_ok ?t" unfolding t by (rule py_strip_successively)
  have st: "\<And>x. x \<in> set ?t \<Longrightarrow> is_space x \<Longrightarrow> x = 32"
    unfolding t using collapse_ws_spaces py_strip_set by blast
  have "space_before_open ?t = ?t" using ot by (rule open_ok_fix)
  moreover have "space_after_close ?t = ?t" using ct by (rule close_ok_fix)
  moreover have "collapse_ws ?t = ?t" using wt st by (rule collapse_ws_fix)
  moreover have "py_strip ?t = ?t" unfolding t by (rule py_strip_idem)
  ultimately show ?thesis
    by (simp add: normalize_output_def [of "normalize_output s"])
qed


theorem normalize_output_idempotent_example:
  "normalize_output (normalize_output (str ''Hello[NAME]and  [X]9 ''))
     = str ''Hello [NAME] and [X] 9''"
proof -
  have "normalize_output (str ''Hello[NAME]and  [X]9 '') = str ''Hello [NAME] and [X] 9''"
    by (simp add: normalize_output_def py_strip_def str_def is_space_def is_alnum_ascii_def
        is_upper_ascii_def is_lower_ascii_def is_digit_ascii_def)
  then show ?thesis
    using normalize_output_idempotent [of "str ''Hello[NAME]and  [X]9 ''"] by simp
qed

section \<open>The pipeline of \<open>redact\<close>\<close>

lemma filter_refine_eq: "filter_refine R U t acc cs = acc @ filter (keep_result R U t) cs"
  by (induction cs arbitrary: acc) auto

lemma letters_only_candidates:
  assumes "\<forall>c\<in>set t. c < 128 \<and> \<not> is_digit_ascii c"
  shows "phone_results U t = []" and "sticky_tickets U t = []"
    and "chinese_results U t [] = []"
proof -
  from assms have "\<forall>c\<in>set t. \<not> digit c" by (simp add: digit_def)
  then show "phone_results U t = []"
    by (simp add: phone_results_def phone_analyze_without_digit)
  from assms have "\<forall>c\<in>set t. \<not> re_digit U c" by (simp add: re_digit_def)
  then show "sticky_tickets U t = []" by (rule sticky_tickets_without_digit)
  from assms have "\<forall>c\<in>set t. \<not> (11904 \<le> c \<and> c \<le> 40959)" by auto
  then have "get_custom_chinese_names U t = []" by (rule custom_chinese_names_without_cjk)
  then show "chinese_results U t [] = []"
    by (simp add: chinese_results_def)
qed

lemma ouyang_plain: "\<forall>c\<in>set (str ''Ouyang Ming''). c < 128 \<and> \<not> is_digit_ascii c"
  by (simp add: str_def is_digit_ascii_def)

lemma ouyang_combined:
  assumes "analyzer_analyze R = (\<lambda>t. Inr [])" and "hanlp_ner R = None"
  shows "combined_results R U (str ''Ouyang Ming'') =
     Inr [RecognizerResult ''PERSON'' 0 11 0.85, RecognizerResult ''PERSON'' 0 11 0.9]"
proof -
  from assms(2) have "get_hanlp_entities R (str ''Ouyang Ming'') = Inr []"
    by (simp add: get_hanlp_entities_def)
  then show ?thesis
    using assms(1) letters_only_candidates [OF ouyang_plain, of U]
    by (simp add: combined_results_def romanized_results_def detect_names_ouyang)
qed

lemma ouyang_kept:
  "keep_result R U (str ''Ouyang Ming'') (RecognizerResult ''PERSON'' 0 11 sc)"
proof -
  have "py_strip (py_slice (str ''Ouyang Ming'') 0 11) = str ''Ouyang Ming''"
    by (simp add: py_str_defs char_class_defs)
  moreover have "length (py_split (str ''Ouyang Ming'')) = 2"
    by (simp add: str_def char_class_defs)
  ultimately show ?thesis
    by (simp add: keep_result_def RecognizerResult_def)
qed

lemma ouyang_final:
  assumes "analyzer_analyze R = (\<lambda>t. Inr [])" and "hanlp_ner R = None"
  shows "final_results R U (str ''Ouyang Ming'') =
     Inr [RecognizerResult ''PERSON'' 0 11 0.85, RecognizerResult ''PERSON'' 0 11 0.9]"
  using ouyang_combined [OF assms] ouyang_kept
  by (simp add: final_results_def filter_refine_eq)

text \<open>
  Claim C1, as the code has it. \<open>redact\<close> reaches step 8 exactly when the analyser and
  the Chinese recogniser have returned, and the list it then passes to the anonymiser is
  the list of collected candidates (the analyser's, the phone numbers, the Chinese names,
  the romanised names, the ticket numbers, in this order) without the candidates their
  validator rejects. The order of collection is kept and nothing is removed because it
  overlaps another candidate.
\<close>

theorem final_results_are_the_validated_candidates:
  "final_results R U t = Inr fs \<longleftrightarrow>
     (\<exists>results hanlp_raw.
        analyzer_analyze R t = Inr results \<and> get_hanlp_entities R t = Inr hanlp_raw
        \<and> fs = filter (keep_result R U t)
                 (results @ phone_results U t @ chinese_results U t hanlp_raw
                  @ romanized_results U t @ sticky_tickets U t))"
proof
  assume "final_results R U t = Inr fs"
  then obtain cs where cs: "combined_results R U t = Inr cs" "fs = filter_refine R U t [] cs"
    by (auto simp: final_results_def split: sum.splits)
  from cs(1) obtain results hanlp_raw where
    "analyzer_analyze R t = Inr results" "get_hanlp_entities R t = Inr hanlp_raw"
    "cs = results @ phone_results U t @ chinese_results U t hanlp_raw
          @ romanized_results U t @ sticky_tickets U t"
    by (auto simp: combined_results_def split: sum.splits)
  with cs(2) show "\<exists>results hanlp_raw.
        analyzer_analyze R t = Inr results \<and> get_hanlp_entities R t = Inr hanlp_raw
        \<and> fs = filter (keep_result R U t)
                 (results @ phone_results U t @ chinese_results U t hanlp_raw
                  @ romanized_results U t @ sticky_tickets U t)"
    by (auto simp: filter_refine_eq)
next
  assume "\<exists>results hanlp_raw.
        analyzer_analyze R t = Inr results \<and> get_hanlp_entities R t = Inr hanlp_raw
        \<and> fs = filter (keep_result R U t)
                 (results @ phone_results U t @ chinese_results U t hanlp_raw
                  @ romanized_results U t @ sticky_tickets U t)"
  then show "final_results R U t = Inr fs"
    by (auto simp: final_results_def combined_results_def filter_refine_eq)
qed

text \<open>
  The claim as it is worded fails: on \<open>Ouyang Ming\<close>, with an analyser that finds nothing,
  the final list holds the span from 0 to 11 twice. The two spans overlap, and the list
  sorted by start has a span that ends after the next one starts.
\<close>

theorem final_results_overlap:
  "final_results quiet_runtime ascii_tables (str ''Ouyang Ming'') =
     Inr [RecognizerResult ''PERSON'' 0 11 0.85, RecognizerResult ''PERSON'' 0 11 0.9]
   \<and> overlap (RecognizerResult ''PERSON'' 0 11 0.85) (RecognizerResult ''PERSON'' 0 11 0.9)
   \<and> \<not> non_overlapping [RecognizerResult ''PERSON'' 0 11 0.85, RecognizerResult ''PERSON'' 0 11 0.9]"
proof -
  have "final_results quiet_runtime ascii_tables (str ''Ouyang Ming'') =
     Inr [RecognizerResult ''PERSON'' 0 11 0.85, RecognizerResult ''PERSON'' 0 11 0.9]"
    by (rule ouyang_final) (simp_all add: quiet_runtime_def)
  then show ?thesis
    by (simp add: overlap_def non_overlapping_def RecognizerResult_def)
qed

text \<open>
  The same run as an instance of the theorem: both candidates of \<open>Ouyang Ming\<close> pass the
  filter.
\<close>

theorem final_results_are_the_validated_candidates_example:
  "(\<exists>results hanlp_raw.
      analyzer_analyze quiet_runtime (str ''Ouyang Ming'') = Inr results
      \<and> get_hanlp_entities quiet_runtime (str ''Ouyang Ming'') = Inr hanlp_raw
      \<and> [RecognizerResult ''PERSON'' 0 11 0.85, RecognizerResult ''PERSON'' 0 11 0.9]
        = filter (keep_result quiet_runtime ascii_tables (str ''Ouyang Ming''))
            (results @ phone_results ascii_tables (str ''Ouyang Ming'')
             @ chinese_results ascii_tables (str ''Ouyang Ming'') hanlp_raw
             @ romanized_results ascii_tables (str ''Ouyang Ming'')
             @ sticky_tickets ascii_tables (str ''Ouyang Ming'')))"
proof -
  have "final_results quiet_runtime ascii_tables (str ''Ouyang Ming'') =
     Inr [RecognizerResult ''PERSON'' 0 11 0.85, RecognizerResult ''PERSON'' 0 11 0.9]"
    by (rule ouyang_final) (simp_all add: quiet_runtime_def)
  with final_results_are_the_validated_candidates
    [of quiet_runtime ascii_tables "str ''Ouyang Ming''"
        "[RecognizerResult ''PERSON'' 0 11 0.85, RecognizerResult ''PERSON'' 0 11 0.9]"]
  show ?thesis by blast
qed

text \<open>
  What step 8 returns once the candidates are collected: the normalised output of the
  anonymiser; the given text when the anonymiser raises an exception of class
  \<open>Exception\<close> and the handler prints it; otherwise the exception that the handler does
  not catch, or the exception of its \<open>print\<close>.
\<close>

lemma redact_step8:
  "final_results R U t = Inr fs \<Longrightarrow>
     redact R U t =
       (case anonymizer_anonymize R t fs of
          Inr output_text \<Rightarrow> Inr (normalize_output output_text)
        | Inl e \<Rightarrow>
            if is_Exception e then (case print_error R e of None \<Rightarrow> Inr t | Some e' \<Rightarrow> Inl e')
            else Inl e)"
  by (simp add: redact_def)

lemma redact_returns_text_on_failure:
  "redact failing_anonymizer_runtime ascii_tables (str ''Ouyang Ming'') = Inr (str ''Ouyang Ming'')"
proof -
  have "final_results failing_anonymizer_runtime ascii_tables (str ''Ouyang Ming'') =
     Inr [RecognizerResult ''PERSON'' 0 11 0.85, RecognizerResult ''PERSON'' 0 11 0.9]"
    by (rule ouyang_final) (simp_all add: failing_anonymizer_runtime_def quiet_runtime_def)
  from redact_step8 [OF this] show ?thesis
    by (simp add: failing_anonymizer_runtime_def quiet_runtime_def)
qed

text \<open>
  Claim C2. The code does not keep it: the analyser is called in step 1, before the
  \<open>try\<close> of step 8 and without a handler of its own, so an exception that the analyser
  raises leaves \<open>redact\<close>, for every text and whatever the other collaborators do.
\<close>

theorem redact_analyzer_exception_escapes:
  "analyzer_analyze R t = Inl e \<longrightarrow> redact R U t = Inl e"
  by (simp add: redact_def final_results_def combined_results_def)

text \<open>A run whose analyser raises \<open>ValueError\<close>: \<open>redact\<close> raises it.\<close>

theorem redact_raises_with_analyzer:
  "redact failing_analyzer_runtime ascii_tables (str ''Hello'') = Inl ValueError"
proof -
  have "analyzer_analyze failing_analyzer_runtime (str ''Hello'') = Inl ValueError"
    by (simp add: failing_analyzer_runtime_def)
  with redact_analyzer_exception_escapes [of failing_analyzer_runtime "str ''Hello''" ValueError ascii_tables]
  show ?thesis by blast
qed

text \<open>
  Claim C5, as the code has it. A \<open>PERSON\<close> candidate whose stripped text is one token
  and, in lowercase, one of the eleven common words is kept exactly when its score is
  0.6 or more; with a lower score it is left out of the final list.
\<close>

theorem common_word_person_threshold:
  "entity_type res = ''PERSON''
   \<and> length (py_split (py_strip (py_slice t (r_start res) (r_end res)))) = 1
   \<and> py_lower U (py_strip (py_slice t (r_start res) (r_end res))) \<in> set common_name_words
   \<longrightarrow> (keep_result R U t res \<longleftrightarrow> 0.6 \<le> r_score res)
     \<and> (res \<in> set (filter_refine R U t [] combined) \<longleftrightarrow> res \<in> set combined \<and> 0.6 \<le> r_score res)"
  by (auto simp: keep_result_def filter_refine_eq not_less)

text \<open>
  The claim as it is worded fails at the threshold: the candidate \<open>May\<close> with the score
  0.6, which does not exceed 0.6, stays in the final list.
\<close>

theorem common_word_person_kept_at_threshold:
  "entity_type (RecognizerResult ''PERSON'' 0 3 0.6) = ''PERSON''
   \<and> py_split (py_strip (py_slice (str ''May I help you?'') 0 3)) = [str ''May'']
   \<and> py_lower ascii_tables (py_strip (py_slice (str ''May I help you?'') 0 3)) = str ''may''
   \<and> \<not> (0.6 < r_score (RecognizerResult ''PERSON'' 0 3 0.6))
   \<and> filter_refine quiet_runtime ascii_tables (str ''May I help you?'') []
        [RecognizerResult ''PERSON'' 0 3 0.6] = [RecognizerResult ''PERSON'' 0 3 0.6]"
  by (simp add: filter_refine_eq keep_result_def RecognizerResult_def common_name_words_def
      py_str_defs char_class_defs)

text \<open>
  \<open>May\<close> with the score 0.5 is left out, with the score 0.85 it is kept.
\<close>

theorem common_word_person_threshold_example:
  "\<not> keep_result quiet_runtime ascii_tables (str ''May I help you?'') (RecognizerResult ''PERSON'' 0 3 0.5)
   \<and> keep_result quiet_runtime ascii_tables (str ''May I help you?'') (RecognizerResult ''PERSON'' 0 3 0.85)
   \<and> RecognizerResult ''PERSON'' 0 3 0.5 \<notin> set (filter_refine quiet_runtime ascii_tables (str ''May I help you?'') []
        [RecognizerResult ''PERSON'' 0 3 0.5, RecognizerResult ''PERSON'' 0 3 0.85])"
proof -
  let ?t = "str ''May I help you?''"
  let ?lo = "RecognizerResult ''PERSON'' 0 3 0.5" and ?hi = "RecognizerResult ''PERSON'' 0 3 0.85"
  have s: "length (py_split (py_strip (py_slice ?t 0 3))) = 1"
    by (simp add: py_str_defs char_class_defs)
  have w: "py_lower ascii_tables (py_strip (py_slice ?t 0 3)) \<in> set common_name_words"
    by (simp add: common_name_words_def py_str_defs char_class_defs)
  have h: "entity_type (RecognizerResult ''PERSON'' 0 3 sc) = ''PERSON''"
    "r_start (RecognizerResult ''PERSON'' 0 3 sc) = 0" "r_end (RecognizerResult ''PERSON'' 0 3 sc) = 3"
    "r_score (RecognizerResult ''PERSON'' 0 3 sc) = sc" for sc
    by (simp_all add: RecognizerResult_def)
  have pre: "entity_type (RecognizerResult ''PERSON'' 0 3 sc) = ''PERSON''
     \<and> length (py_split (py_strip (py_slice ?t (r_start (RecognizerResult ''PERSON'' 0 3 sc))
                                      (r_end (RecognizerResult ''PERSON'' 0 3 sc))))) = 1
     \<and> py_lower ascii_tables (py_strip (py_slice ?t (r_start (RecognizerResult ''PERSON'' 0 3 sc))
                                      (r_end (RecognizerResult ''PERSON'' 0 3 sc))))
         \<in> set common_name_words" for sc
    using s w by (simp only: h simp_thms)
  have lo: "\<not> 0.6 \<le> r_score ?lo" and hi: "0.6 \<le> r_score ?hi" by (simp_all add: h)
  from common_word_person_threshold [of ?lo ?t ascii_tables quiet_runtime "[?lo, ?hi]"] pre [of "0.5"] lo
  have a: "\<not> keep_result quiet_runtime ascii_tables ?t ?lo"
    and c: "?lo \<notin> set (filter_refine quiet_runtime ascii_tables ?t [] [?lo, ?hi])"
    by blast+
  from common_word_person_threshold [of ?hi ?t ascii_tables quiet_runtime "[]"] pre [of "0.85"] hi
  have b: "keep_result quiet_runtime ascii_tables ?t ?hi" by blast
  from a b c show ?thesis by blast
qed

end
